theory Spec2Isabelle
  imports Complex_Main
begin

unbundle bit_operations_syntax

section \<open>Bytes, errors and the hex rendering\<close>

text \<open>
  The two scripts of the repository build SSZ values and ask an external library for their
  hash tree root. Python's \<open>bytes\<close> is a sequence of integers in \<open>0..255\<close>; Python's
  integers are unbounded, so both are modelled over \<open>int\<close>.
\<close>

type_synonym byte = int
type_synonym bytes = "byte list"

text \<open>
  Modelled from the spec: the error taxonomy of the engine. Every raise is a value
  \<open>Inl e\<close>, and \<open>bind_err\<close> passes the first error on, as an exception would.
\<close>

datatype error = RangeError | LengthMismatch | SchemaViolation | UnsupportedType

definition bind_err :: "error + 'a \<Rightarrow> ('a \<Rightarrow> error + 'b) \<Rightarrow> error + 'b" where
  "bind_err r f = (case r of Inl e \<Rightarrow> Inl e | Inr x \<Rightarrow> f x)"

fun sequence_err :: "(error + 'a) list \<Rightarrow> error + 'a list" where
  "sequence_err [] = Inr []"
| "sequence_err (r # rs) =
     bind_err r (\<lambda>x. bind_err (sequence_err rs) (\<lambda>xs. Inr (x # xs)))"

text \<open>
  Python's \<open>bytes.hex()\<close>: two lowercase hex digits for every byte, the high nibble
  first. A byte is in \<open>0..255\<close>, so both nibbles are in \<open>0..15\<close>.
\<close>

definition hex_digit :: "int \<Rightarrow> char" where
  "hex_digit d = ''0123456789abcdef'' ! nat d"

definition hex :: "bytes \<Rightarrow> string" where
  "hex bs = concat (map (\<lambda>b. [hex_digit (b div 16), hex_digit (b mod 16)]) bs)"

section \<open>The type model of the external SSZ library\<close>

text \<open>
  Modelled from the spec: the composite type model (primitive unsigned integers of width
  8/16/32/64/128/256, fixed-length byte vectors, containers with an ordered field schema,
  lists and bitlists bounded by a capacity \<open>LIMIT\<close>). The library itself
  (\<open>lean_spec.types\<close>) is imported by the scripts and is not part of the repository.
  A class declared by a script carries its name.
\<close>

datatype uint_width = W8 | W16 | W32 | W64 | W128 | W256

fun bit_width :: "uint_width \<Rightarrow> nat" where
  "bit_width W8 = 8"
| "bit_width W16 = 16"
| "bit_width W32 = 32"
| "bit_width W64 = 64"
| "bit_width W128 = 128"
| "bit_width W256 = 256"

datatype ssz_type =
    Uint uint_width
  | ByteVector nat
  | Container string "(string \<times> ssz_type) list"
  | SSZList string ssz_type int
  | BaseBitlist string int

datatype ssz_value =
    UintV uint_width int
  | BytesV nat bytes
  | ContainerV string "(string \<times> ssz_type) list" "(string \<times> ssz_value) list"
  | ListV string ssz_type int "ssz_value list"
  | BitlistV string int "bool list"

fun type_of :: "ssz_value \<Rightarrow> ssz_type" where
  "type_of (UintV w v) = Uint w"
| "type_of (BytesV n bs) = ByteVector n"
| "type_of (ContainerV name schema fs) = Container name schema"
| "type_of (ListV name T limit data) = SSZList name T limit"
| "type_of (BitlistV name limit bits) = BaseBitlist name limit"

text \<open>
  Modelled from the spec: a type is fixed-size iff it is a primitive, or a container whose
  fields are all fixed-size; a list or bitlist is always variable-size.
\<close>

fun is_fixed_size :: "ssz_type \<Rightarrow> bool" where
  "is_fixed_size (Uint w) = True"
| "is_fixed_size (ByteVector n) = True"
| "is_fixed_size (Container name schema) = list_all (\<lambda>f. is_fixed_size (snd f)) schema"
| "is_fixed_size (SSZList name T limit) = False"
| "is_fixed_size (BaseBitlist name limit) = False"

text \<open>
  Modelled from the spec: construction validates its argument against the class
  (\<open>RangeError\<close> for an integer outside its width, \<open>LengthMismatch\<close> for a byte
  vector of the wrong length, \<open>SchemaViolation\<close> for a wrong field set, a wrong element
  type or a length beyond \<open>LIMIT\<close>). The arguments are those the scripts pass: a
  positional integer, a positional list of integers, keyword fields, or \<open>data=[...]\<close>.
\<close>

datatype arg =
    IntArg int
  | BytesArg "int list"
  | Fields "(string \<times> ssz_value) list"
  | Data "ssz_value list"
  | Bits "bool list"

fun bind_fields ::
  "(string \<times> ssz_type) list \<Rightarrow> (string \<times> ssz_value) list \<Rightarrow> (string \<times> ssz_value) list option" where
  "bind_fields [] kwargs = Some []"
| "bind_fields (f # schema) kwargs =
     (case map_of kwargs (fst f) of
        None \<Rightarrow> None
      | Some v \<Rightarrow>
          if type_of v = snd f
          then (case bind_fields schema kwargs of None \<Rightarrow> None | Some fs \<Rightarrow> Some ((fst f, v) # fs))
          else None)"

fun new :: "ssz_type \<Rightarrow> arg \<Rightarrow> error + ssz_value" where
  "new (Uint w) (IntArg v) =
     (if 0 \<le> v \<and> v < 2 ^ bit_width w then Inr (UintV w v) else Inl RangeError)"
| "new (ByteVector n) (BytesArg bs) =
     (if length bs \<noteq> n then Inl LengthMismatch
      else if list_all (\<lambda>b. 0 \<le> b \<and> b < 256) bs then Inr (BytesV n bs)
      else Inl RangeError)"
| "new (Container name schema) (Fields kwargs) =
     (if distinct (map fst kwargs) \<and> list_all (\<lambda>k. k \<in> set (map fst schema)) (map fst kwargs)
      then (case bind_fields schema kwargs of
              None \<Rightarrow> Inl SchemaViolation
            | Some fs \<Rightarrow> Inr (ContainerV name schema fs))
      else Inl SchemaViolation)"
| "new (SSZList name T limit) (Data vs) =
     (if int (length vs) \<le> limit \<and> list_all (\<lambda>v. type_of v = T) vs
      then Inr (ListV name T limit vs) else Inl SchemaViolation)"
| "new (BaseBitlist name limit) (Bits bs) =
     (if int (length bs) \<le> limit then Inr (BitlistV name limit bs) else Inl SchemaViolation)"
| "new T a = Inl SchemaViolation"

section \<open>The Merkleizer and \<open>hash_tree_root\<close> of the external library\<close>

text \<open>
  Modelled from the spec: the fixed hashing primitive maps two 32-byte inputs to a 32-byte
  output. The engine is parametric in it; \<open>sha256_nodes\<close> below is the one SSZ uses.
\<close>

type_synonym hash_fn = "bytes \<Rightarrow> bytes \<Rightarrow> bytes"

definition zero_chunk :: bytes where
  "zero_chunk = replicate 32 0"

text \<open>
  Modelled from the spec: the zero-hash table, \<open>Z[0]\<close> the all-zero chunk and
  \<open>Z[i+1] = hash(Z[i], Z[i])\<close>.
\<close>

fun zero_hash :: "hash_fn \<Rightarrow> nat \<Rightarrow> bytes" where
  "zero_hash h 0 = zero_chunk"
| "zero_hash h (Suc i) = h (zero_hash h i) (zero_hash h i)"

text \<open>
  Modelled from the spec: \<open>ceil(log2(n))\<close> as the number of tree levels, with
  depth \<open>0\<close> when \<open>n \<le> 1\<close>.
\<close>

function ceil_log2 :: "nat \<Rightarrow> nat" where
  "ceil_log2 n = (if n \<le> 1 then 0 else Suc (ceil_log2 ((n + 1) div 2)))"
  by pat_completeness auto
termination
  by (relation "measure (\<lambda>n. n)") auto

declare ceil_log2.simps [simp del]

text \<open>
  Modelled from the spec: one level of the bottom-up reduction pairs adjacent chunks; a
  single leftover pairs with the zero hash of that level.
\<close>

fun hash_level :: "hash_fn \<Rightarrow> bytes \<Rightarrow> bytes list \<Rightarrow> bytes list" where
  "hash_level h z (l # r # cs) = h l r # hash_level h z cs"
| "hash_level h z [l] = [h l z]"
| "hash_level h z [] = []"

fun reduce :: "hash_fn \<Rightarrow> nat \<Rightarrow> nat \<Rightarrow> bytes list \<Rightarrow> bytes list" where
  "reduce h level 0 cs = cs"
| "reduce h level (Suc d) cs = reduce h (Suc level) d (hash_level h (zero_hash h level) cs)"

text \<open>
  Modelled from the spec: \<open>merkleize(chunks, limit)\<close>. The depth comes from the limit
  when one is given and from the number of chunks otherwise; the chunks are padded on the
  right with \<open>Z[0]\<close> to \<open>2^depth\<close> and reduced level by level; with no chunk and no
  limit the root is \<open>Z[0]\<close>. The spec says nothing of more chunks than \<open>2^depth\<close>:
  nothing is padded then, and \<open>hash_tree_root\<close> never asks for it, since it refuses an
  instance longer than its capacity.
\<close>

definition merkleize :: "hash_fn \<Rightarrow> bytes list \<Rightarrow> nat option \<Rightarrow> bytes" where
  "merkleize h chunks limit =
     (let n = length chunks;
          depth = (case limit of Some l \<Rightarrow> ceil_log2 l | None \<Rightarrow> ceil_log2 n);
          padded = chunks @ replicate (2 ^ depth - n) zero_chunk
      in if n = 0 \<and> limit = None then zero_hash h 0
         else (case reduce h 0 depth padded of [] \<Rightarrow> zero_hash h depth | node # rest \<Rightarrow> node))"

text \<open>
  Modelled from the spec: the primitive codec (little-endian, exactly \<open>bit_width/8\<close>
  bytes, \<open>RangeError\<close> when the value does not fit) and \<open>serialize_uint64_le\<close>.
\<close>

fun le_bytes :: "nat \<Rightarrow> int \<Rightarrow> bytes" where
  "le_bytes 0 v = []"
| "le_bytes (Suc n) v = (v mod 256) # le_bytes n (v div 256)"

definition encode :: "int \<Rightarrow> nat \<Rightarrow> error + bytes" where
  "encode v w = (if 0 \<le> v \<and> v < 2 ^ w then Inr (le_bytes (w div 8) v) else Inl RangeError)"

definition encode_fixed_bytes :: "bytes \<Rightarrow> nat \<Rightarrow> error + bytes" where
  "encode_fixed_bytes v len = (if length v = len then Inr v else Inl LengthMismatch)"

definition serialize_uint64_le :: "nat \<Rightarrow> bytes" where
  "serialize_uint64_le n = le_bytes 8 (int n)"

text \<open>
  Modelled from the spec: the length is mixed in as the right sibling of the content
  root, padded to a full chunk.
\<close>

definition mix_in_length :: "hash_fn \<Rightarrow> bytes \<Rightarrow> nat \<Rightarrow> bytes" where
  "mix_in_length h content_root len = h content_root (serialize_uint64_le len @ replicate 24 0)"

text \<open>Modelled from the spec: bytes are split into 32-byte chunks, the last one zero-padded.\<close>

function pack :: "bytes \<Rightarrow> bytes list" where
  "pack bs =
     (if bs = [] then []
      else (take 32 bs @ replicate (32 - length (take 32 bs)) 0) # pack (drop 32 bs))"
  by pat_completeness auto
termination
  by (relation "measure length") auto

declare pack.simps [simp del]

text \<open>Modelled from the spec: a bitlist packs its bits 8 per byte, least significant first.\<close>

fun bits_to_byte :: "bool list \<Rightarrow> int" where
  "bits_to_byte [] = 0"
| "bits_to_byte (b # bs) = (if b then 1 else 0) + 2 * bits_to_byte bs"

function bits_to_bytes :: "bool list \<Rightarrow> bytes" where
  "bits_to_bytes bs =
     (if bs = [] then [] else bits_to_byte (take 8 bs) # bits_to_bytes (drop 8 bs))"
  by pat_completeness auto
termination
  by (relation "measure length") auto

declare bits_to_bytes.simps [simp del]

text \<open>
  Modelled from the spec: the root of a primitive. A serialization of exactly 32 bytes is
  the root; a shorter one is right-padded with zero bytes; a longer one is split into
  chunks and merkleized without limit.
\<close>

definition leaf_root :: "hash_fn \<Rightarrow> bytes \<Rightarrow> bytes" where
  "leaf_root h ser =
     (if length ser = 32 then ser
      else if length ser < 32 then ser @ replicate (32 - length ser) 0
      else merkleize h (pack ser) None)"

text \<open>
  Modelled from the spec: the capacity of a list in chunk-count terms. Unsigned integers
  are packed \<open>elements_per_chunk\<close> to a chunk; every other element contributes its
  own root, one chunk.
\<close>

fun elements_per_chunk :: "ssz_type \<Rightarrow> nat" where
  "elements_per_chunk (Uint w) = 256 div bit_width w"
| "elements_per_chunk T = 1"

definition chunk_limit :: "ssz_type \<Rightarrow> int \<Rightarrow> nat" where
  "chunk_limit T limit =
     nat ((limit + int (elements_per_chunk T) - 1) div int (elements_per_chunk T))"

text \<open>
  Modelled from the spec: the depth of a bitlist comes from \<open>ceil(limit_in_bits / 256)\<close>
  chunks.
\<close>

definition bitlist_chunk_limit :: "int \<Rightarrow> nat" where
  "bitlist_chunk_limit limit = nat ((limit + 255) div 256)"

text \<open>
  Modelled from the spec: the elements of a list of unsigned integers are serialized by
  the primitive codec and packed; such a list holds nothing else.
\<close>

fun serialize_basic :: "ssz_value \<Rightarrow> error + bytes" where
  "serialize_basic (UintV w v) = encode v (bit_width w)"
| "serialize_basic v = Inl SchemaViolation"

fun is_basic :: "ssz_type \<Rightarrow> bool" where
  "is_basic (Uint w) = True"
| "is_basic T = False"

text \<open>
  Modelled from the spec: \<open>hash_tree_root\<close> dispatches on the kind of the value. A
  container merkleizes the roots of its fields in declared order, without limit and
  without length; a list or bitlist merkleizes its chunks under the capacity in chunk
  terms and mixes in the element or bit count. An instance that does not satisfy its
  schema is refused with the error its construction would have raised.
\<close>

fun hash_tree_root :: "hash_fn \<Rightarrow> ssz_value \<Rightarrow> error + bytes" where
  "hash_tree_root h (UintV w v) =
     bind_err (encode v (bit_width w)) (\<lambda>ser. Inr (leaf_root h ser))"
| "hash_tree_root h (BytesV n bs) =
     bind_err (encode_fixed_bytes bs n) (\<lambda>ser. Inr (leaf_root h ser))"
| "hash_tree_root h (ContainerV name schema fs) =
     (if map fst fs = map fst schema \<and> map (\<lambda>f. type_of (snd f)) fs = map snd schema
      then bind_err (sequence_err (map (\<lambda>f. hash_tree_root h (snd f)) fs))
             (\<lambda>roots. Inr (merkleize h roots None))
      else Inl SchemaViolation)"
| "hash_tree_root h (ListV name T limit data) =
     (if int (length data) \<le> limit \<and> list_all (\<lambda>v. type_of v = T) data
      then bind_err
             (if is_basic T
              then bind_err (sequence_err (map serialize_basic data)) (\<lambda>sers. Inr (pack (concat sers)))
              else sequence_err (map (hash_tree_root h) data))
             (\<lambda>chunks.
                Inr (mix_in_length h (merkleize h chunks (Some (chunk_limit T limit))) (length data)))
      else Inl SchemaViolation)"
| "hash_tree_root h (BitlistV name limit bits) =
     (if int (length bits) \<le> limit
      then Inr (mix_in_length h
                  (merkleize h (pack (bits_to_bytes bits)) (Some (bitlist_chunk_limit limit)))
                  (length bits))
      else Inl SchemaViolation)"

section \<open>The engine over the lazily computed zero-hash table\<close>

text \<open>
  Modelled from the spec: the zero-hash table is the one piece of process-wide state. It
  is computed lazily: it starts empty, a lookup of \<open>Z[i]\<close> appends the entries up to
  \<open>i\<close> that are not there yet, each from the one before, and later lookups reuse
  them.
\<close>

type_synonym zero_table = "bytes list"

fun grow_table :: "hash_fn \<Rightarrow> nat \<Rightarrow> zero_table \<Rightarrow> zero_table" where
  "grow_table h 0 t = t"
| "grow_table h (Suc k) t =
     grow_table h k (if t = [] then [zero_chunk] else t @ [h (last t) (last t)])"

definition zero_hash_st :: "hash_fn \<Rightarrow> nat \<Rightarrow> zero_table \<Rightarrow> bytes \<times> zero_table" where
  "zero_hash_st h i t = (let t' = grow_table h (Suc i - length t) t in (t' ! i, t'))"

text \<open>
  Modelled from the spec: the Merkleizer as a process runs it, reading the zero hashes
  from the table and returning the table it leaves behind.
\<close>

fun reduce_st ::
  "hash_fn \<Rightarrow> nat \<Rightarrow> nat \<Rightarrow> bytes list \<Rightarrow> zero_table \<Rightarrow> bytes list \<times> zero_table" where
  "reduce_st h level 0 cs t = (cs, t)"
| "reduce_st h level (Suc d) cs t =
     (case zero_hash_st h level t of
        (z, t') \<Rightarrow> reduce_st h (Suc level) d (hash_level h z cs) t')"

definition merkleize_st ::
  "hash_fn \<Rightarrow> bytes list \<Rightarrow> nat option \<Rightarrow> zero_table \<Rightarrow> bytes \<times> zero_table" where
  "merkleize_st h chunks limit t =
     (let n = length chunks;
          depth = (case limit of Some l \<Rightarrow> ceil_log2 l | None \<Rightarrow> ceil_log2 n)
      in case zero_hash_st h 0 t of
           (z0, t0) \<Rightarrow>
             if n = 0 \<and> limit = None then (z0, t0)
             else (case reduce_st h 0 depth (chunks @ replicate (2 ^ depth - n) z0) t0 of
                     ([], t1) \<Rightarrow> zero_hash_st h depth t1
                   | (node # rest, t1) \<Rightarrow> (node, t1)))"

definition leaf_root_st :: "hash_fn \<Rightarrow> bytes \<Rightarrow> zero_table \<Rightarrow> bytes \<times> zero_table" where
  "leaf_root_st h ser t =
     (if length ser = 32 then (ser, t)
      else if length ser < 32 then (ser @ replicate (32 - length ser) 0, t)
      else merkleize_st h (pack ser) None t)"

text \<open>
  Modelled from the spec: \<open>hash_tree_root\<close> as a process runs it. The walk is the one
  of \<open>hash_tree_root\<close> above, field by field and element by element from left to
  right; the table is handed from each call to the next and outlives the call, also when
  the call ends in an error.
\<close>

fun hash_tree_root_st ::
      "hash_fn \<Rightarrow> ssz_value \<Rightarrow> zero_table \<Rightarrow> (error + bytes) \<times> zero_table"
  and roots_st ::
      "hash_fn \<Rightarrow> ssz_value list \<Rightarrow> zero_table \<Rightarrow> (error + bytes list) \<times> zero_table"
  and field_roots_st ::
      "hash_fn \<Rightarrow> (string \<times> ssz_value) list \<Rightarrow> zero_table \<Rightarrow> (error + bytes list) \<times> zero_table"
where
  "hash_tree_root_st h (UintV w v) t =
     (case encode v (bit_width w) of
        Inl e \<Rightarrow> (Inl e, t)
      | Inr ser \<Rightarrow> (case leaf_root_st h ser t of (r, t') \<Rightarrow> (Inr r, t')))"
| "hash_tree_root_st h (BytesV n bs) t =
     (case encode_fixed_bytes bs n of
        Inl e \<Rightarrow> (Inl e, t)
      | Inr ser \<Rightarrow> (case leaf_root_st h ser t of (r, t') \<Rightarrow> (Inr r, t')))"
| "hash_tree_root_st h (ContainerV name schema fs) t =
     (if map fst fs = map fst schema \<and> map (\<lambda>f. type_of (snd f)) fs = map snd schema
      then (case field_roots_st h fs t of
              (Inl e, t') \<Rightarrow> (Inl e, t')
            | (Inr roots, t') \<Rightarrow>
                (case merkleize_st h roots None t' of (r, t'') \<Rightarrow> (Inr r, t'')))
      else (Inl SchemaViolation, t))"
| "hash_tree_root_st h (ListV name T limit data) t =
     (if int (length data) \<le> limit \<and> list_all (\<lambda>v. type_of v = T) data
      then (case (if is_basic T
                  then (bind_err (sequence_err (map serialize_basic data))
                          (\<lambda>sers. Inr (pack (concat sers))), t)
                  else roots_st h data t) of
              (Inl e, t') \<Rightarrow> (Inl e, t')
            | (Inr chunks, t') \<Rightarrow>
                (case merkleize_st h chunks (Some (chunk_limit T limit)) t' of
                   (r, t'') \<Rightarrow> (Inr (mix_in_length h r (length data)), t'')))
      else (Inl SchemaViolation, t))"
| "hash_tree_root_st h (BitlistV name limit bits) t =
     (if int (length bits) \<le> limit
      then (case merkleize_st h (pack (bits_to_bytes bits)) (Some (bitlist_chunk_limit limit)) t of
              (r, t') \<Rightarrow> (Inr (mix_in_length h r (length bits)), t'))
      else (Inl SchemaViolation, t))"
| "roots_st h [] t = (Inr [], t)"
| "roots_st h (v # vs) t =
     (case hash_tree_root_st h v t of
        (Inl e, t') \<Rightarrow> (Inl e, t')
      | (Inr r, t') \<Rightarrow>
          (case roots_st h vs t' of
             (Inl e, t'') \<Rightarrow> (Inl e, t'')
           | (Inr rs, t'') \<Rightarrow> (Inr (r # rs), t'')))"
| "field_roots_st h [] t = (Inr [], t)"
| "field_roots_st h (f # fs) t =
     (case hash_tree_root_st h (snd f) t of
        (Inl e, t') \<Rightarrow> (Inl e, t')
      | (Inr r, t') \<Rightarrow>
          (case field_roots_st h fs t' of
             (Inl e, t'') \<Rightarrow> (Inl e, t'')
           | (Inr rs, t'') \<Rightarrow> (Inr (r # rs), t'')))"

text \<open>
  Modelled from the spec: the table is only ever written by the lookups, so at any moment
  it holds the first zero hashes, in order. The empty table of a fresh process is such a
  table.
\<close>

definition table_ok :: "hash_fn \<Rightarrow> zero_table \<Rightarrow> bool" where
  "table_ok h t = (t = map (zero_hash h) [0..<length t])"

section \<open>SHA-256, the hashing primitive of SSZ\<close>

text \<open>
  Modelled from the spec: the fixed hashing primitive of the external library. The spec
  leaves it unnamed; SSZ fixes it as SHA-256 (FIPS 180-4) of the 64-byte concatenation of
  the two nodes. Words are 32-bit, kept in \<open>int\<close> with the wrap-around written out.
\<close>

type_synonym w32 = int

definition add32 :: "w32 \<Rightarrow> w32 \<Rightarrow> w32" where
  "add32 x y = (x + y) mod 4294967296"

definition rotr :: "nat \<Rightarrow> w32 \<Rightarrow> w32" where
  "rotr n x = x div 2 ^ n + (x mod 2 ^ n) * 2 ^ (32 - n)"

definition not32 :: "w32 \<Rightarrow> w32" where
  "not32 x = 4294967295 - x"

definition Ch :: "w32 \<Rightarrow> w32 \<Rightarrow> w32 \<Rightarrow> w32" where
  "Ch x y z = (x AND y) XOR (not32 x AND z)"

definition Maj :: "w32 \<Rightarrow> w32 \<Rightarrow> w32 \<Rightarrow> w32" where
  "Maj x y z = (x AND y) XOR (x AND z) XOR (y AND z)"

definition bsig0 :: "w32 \<Rightarrow> w32" where
  "bsig0 x = rotr 2 x XOR rotr 13 x XOR rotr 22 x"

definition bsig1 :: "w32 \<Rightarrow> w32" where
  "bsig1 x = rotr 6 x XOR rotr 11 x XOR rotr 25 x"

definition ssig0 :: "w32 \<Rightarrow> w32" where
  "ssig0 x = rotr 7 x XOR rotr 18 x XOR x div 2 ^ 3"

definition ssig1 :: "w32 \<Rightarrow> w32" where
  "ssig1 x = rotr 17 x XOR rotr 19 x XOR x div 2 ^ 10"

definition K256 :: "w32 list" where
  "K256 = [
  1116352408, 1899447441, 3049323471, 3921009573, 961987163, 1508970993, 2453635748, 2870763221,
  3624381080, 310598401, 607225278, 1426881987, 1925078388, 2162078206, 2614888103, 3248222580,
  3835390401, 4022224774, 264347078, 604807628, 770255983, 1249150122, 1555081692, 1996064986,
  2554220882, 2821834349, 2952996808, 3210313671, 3336571891, 3584528711, 113926993, 338241895,
  666307205, 773529912, 1294757372, 1396182291, 1695183700, 1986661051, 2177026350, 2456956037,
  2730485921, 2820302411, 3259730800, 3345764771, 3516065817, 3600352804, 4094571909, 275423344,
  430227734, 506948616, 659060556, 883997877, 958139571, 1322822218, 1537002063, 1747873779,
  1955562222, 2024104815, 2227730452, 2361852424, 2428436474, 2756734187, 3204031479, 3329325298]"

type_synonym sha_state = "w32 \<times> w32 \<times> w32 \<times> w32 \<times> w32 \<times> w32 \<times> w32 \<times> w32"

definition H256 :: sha_state where
  "H256 = (1779033703, 3144134277, 1013904242, 2773480762,
           1359893119, 2600822924, 528734635, 1541459225)"

fun be_words :: "bytes \<Rightarrow> w32 list" where
  "be_words (b0 # b1 # b2 # b3 # bs) =
     (b0 * 16777216 + b1 * 65536 + b2 * 256 + b3) # be_words bs"
| "be_words bs = []"

fun word_bytes :: "w32 \<Rightarrow> bytes" where
  "word_bytes x = [x div 16777216, x div 65536 mod 256, x div 256 mod 256, x mod 256]"

text \<open>The message schedule is a window of the last 16 words, extended as the rounds go.\<close>

definition next_w :: "w32 list \<Rightarrow> w32" where
  "next_w ws = add32 (add32 (ssig1 (ws ! 14)) (ws ! 9)) (add32 (ssig0 (ws ! 1)) (ws ! 0))"

fun round_step :: "w32 \<Rightarrow> w32 \<Rightarrow> sha_state \<Rightarrow> sha_state" where
  "round_step t1 t2 (a, b, c, d, e, f, g, h) = (add32 t1 t2, a, b, c, add32 d t1, e, f, g)"

fun round1 :: "w32 \<Rightarrow> w32 \<Rightarrow> sha_state \<Rightarrow> sha_state" where
  "round1 k w (a, b, c, d, e, f, g, h) =
     round_step (add32 (add32 (add32 h (bsig1 e)) (add32 (Ch e f g) k)) w)
                (add32 (bsig0 a) (Maj a b c)) (a, b, c, d, e, f, g, h)"

fun rounds :: "w32 list \<Rightarrow> w32 list \<Rightarrow> sha_state \<Rightarrow> sha_state" where
  "rounds [] ws s = s"
| "rounds (k # ks) ws s = rounds ks (tl ws @ [next_w ws]) (round1 k (hd ws) s)"

fun add_state :: "sha_state \<Rightarrow> sha_state \<Rightarrow> sha_state" where
  "add_state (a, b, c, d, e, f, g, h) (a', b', c', d', e', f', g', h') =
     (add32 a a', add32 b b', add32 c c', add32 d d',
      add32 e e', add32 f f', add32 g g', add32 h h')"

definition compress :: "sha_state \<Rightarrow> bytes \<Rightarrow> sha_state" where
  "compress s block = add_state s (rounds K256 (be_words block) s)"

fun state_bytes :: "sha_state \<Rightarrow> bytes" where
  "state_bytes (a, b, c, d, e, f, g, h) = concat (map word_bytes [a, b, c, d, e, f, g, h])"

function sha_blocks :: "sha_state \<Rightarrow> bytes \<Rightarrow> sha_state" where
  "sha_blocks s bs =
     (if length bs < 64 then s else sha_blocks (compress s (take 64 bs)) (drop 64 bs))"
  by pat_completeness auto
termination
  by (relation "measure (\<lambda>(s, bs). length bs)") auto

declare sha_blocks.simps [simp del]

definition be64 :: "nat \<Rightarrow> bytes" where
  "be64 n = map (\<lambda>i. int n div 256 ^ i mod 256) [7, 6, 5, 4, 3, 2, 1, 0::nat]"

definition sha_pad :: "bytes \<Rightarrow> bytes" where
  "sha_pad m =
     m @ [128] @ replicate ((55 + 64 - length m mod 64) mod 64) 0 @ be64 (8 * length m)"

definition sha256 :: "bytes \<Rightarrow> bytes" where
  "sha256 m = state_bytes (sha_blocks H256 (sha_pad m))"

definition sha256_nodes :: hash_fn where
  "sha256_nodes a b = sha256 (a @ b)"

section \<open>The script \<open>validate_beam_state_hash.py\<close>\<close>

text \<open>The classes the scripts import from the library.\<close>

abbreviation Uint64 :: ssz_type where "Uint64 \<equiv> Uint W64"
abbreviation Uint32 :: ssz_type where "Uint32 \<equiv> Uint W32"
abbreviation Uint8 :: ssz_type where "Uint8 \<equiv> Uint W8"
abbreviation Bytes32 :: ssz_type where "Bytes32 \<equiv> ByteVector 32"

text \<open>The class attributes \<open>LIMIT\<close> and \<open>ELEMENT_TYPE\<close> of a list or bitlist class.\<close>

fun LIMIT :: "ssz_type \<Rightarrow> int option" where
  "LIMIT (SSZList name T limit) = Some limit"
| "LIMIT (BaseBitlist name limit) = Some limit"
| "LIMIT T = None"

fun ELEMENT_TYPE :: "ssz_type \<Rightarrow> ssz_type option" where
  "ELEMENT_TYPE (SSZList name T limit) = Some T"
| "ELEMENT_TYPE T = None"

text \<open>The ordered field schema of a container class.\<close>

fun fields :: "ssz_type \<Rightarrow> (string \<times> ssz_type) list" where
  "fields (Container name schema) = schema"
| "fields T = []"

definition VALIDATOR_REGISTRY_LIMIT :: int where
  "VALIDATOR_REGISTRY_LIMIT = push_bit 12 1"

definition HISTORICAL_ROOTS_LIMIT :: int where
  "HISTORICAL_ROOTS_LIMIT = push_bit 18 1"

definition BeamStateConfig :: ssz_type where
  "BeamStateConfig = Container ''BeamStateConfig''
     [(''num_validators'', Uint32), (''genesis_time'', Uint64)]"

definition BeamBlockHeader :: ssz_type where
  "BeamBlockHeader = Container ''BeamBlockHeader''
     [(''slot'', Uint64), (''proposer_index'', Uint32), (''parent_root'', Bytes32),
      (''state_root'', Bytes32), (''body_root'', Bytes32)]"

definition Mini3SFCheckpoint :: ssz_type where
  "Mini3SFCheckpoint = Container ''Mini3SFCheckpoint'' [(''root'', Bytes32), (''slot'', Uint64)]"

definition JustifiedSlotsBitlist :: ssz_type where
  "JustifiedSlotsBitlist = BaseBitlist ''JustifiedSlotsBitlist'' HISTORICAL_ROOTS_LIMIT"

definition JustificationsValidatorsBitlist :: ssz_type where
  "JustificationsValidatorsBitlist =
     BaseBitlist ''JustificationsValidatorsBitlist'' VALIDATOR_REGISTRY_LIMIT"

definition HistoricalBlockHashesList :: ssz_type where
  "HistoricalBlockHashesList =
     SSZList ''HistoricalBlockHashesList'' Bytes32 HISTORICAL_ROOTS_LIMIT"

definition JustificationsRootsList :: ssz_type where
  "JustificationsRootsList = SSZList ''JustificationsRootsList'' Bytes32 HISTORICAL_ROOTS_LIMIT"

definition BeamState :: ssz_type where
  "BeamState = Container ''BeamState''
     [(''config'', BeamStateConfig), (''slot'', Uint64),
      (''latest_block_header'', BeamBlockHeader),
      (''latest_justified'', Mini3SFCheckpoint), (''latest_finalized'', Mini3SFCheckpoint),
      (''historical_block_hashes'', HistoricalBlockHashesList),
      (''justified_slots'', JustifiedSlotsBitlist),
      (''justifications_roots'', JustificationsRootsList),
      (''justifications_validators'', JustificationsValidatorsBitlist)]"

text \<open>
  A call \<open>C(k1=e1, ..., kn=en)\<close> evaluates the argument expressions from left to right,
  any of which may raise, and then constructs the instance.
\<close>

definition construct :: "ssz_type \<Rightarrow> (string \<times> (error + ssz_value)) list \<Rightarrow> error + ssz_value" where
  "construct T args =
     bind_err (sequence_err (map (\<lambda>a. bind_err (snd a) (\<lambda>v. Inr (fst a, v))) args))
       (\<lambda>kwargs. new T (Fields kwargs))"

definition create_beam_state :: "error + ssz_value" where
  "create_beam_state =
     bind_err (construct BeamStateConfig
       [(''num_validators'', new Uint32 (IntArg VALIDATOR_REGISTRY_LIMIT)),
        (''genesis_time'', new Uint64 (IntArg 0))]) (\<lambda>config.
     bind_err (construct BeamBlockHeader
       [(''slot'', new Uint64 (IntArg 0)),
        (''proposer_index'', new Uint32 (IntArg 0)),
        (''parent_root'', new Bytes32 (BytesArg (replicate 32 0))),
        (''state_root'', new Bytes32 (BytesArg (replicate 32 0))),
        (''body_root'', new Bytes32 (BytesArg (replicate 32 0)))]) (\<lambda>block_header.
     bind_err (construct Mini3SFCheckpoint
       [(''root'', new Bytes32 (BytesArg (replicate 32 0))),
        (''slot'', new Uint64 (IntArg 0))]) (\<lambda>checkpoint.
     construct BeamState
       [(''config'', Inr config),
        (''slot'', new Uint64 (IntArg 0)),
        (''latest_block_header'', Inr block_header),
        (''latest_justified'', Inr checkpoint),
        (''latest_finalized'', Inr checkpoint),
        (''historical_block_hashes'', new HistoricalBlockHashesList (Data [])),
        (''justified_slots'', new JustifiedSlotsBitlist (Bits [])),
        (''justifications_roots'', new JustificationsRootsList (Data [])),
        (''justifications_validators'', new JustificationsValidatorsBitlist (Bits []))])))"

definition zig_hash :: string where
  "zig_hash = ''933fc69092f542e467681ac6cf9dae4a616ba5ea9c3c61f93cbcaf0be3548e01''"

text \<open>
  \<open>main\<close> of the script; the \<open>print\<close> calls have no effect on what it returns and are
  left out. The script imports \<open>hash_tree_root\<close> from the library: it is the parameter
  \<open>htr\<close>, and \<open>hash_tree_root h\<close> above is what the library provides.
\<close>

type_synonym root_fn = "ssz_value \<Rightarrow> error + bytes"

definition main :: "root_fn \<Rightarrow> error + bool" where
  "main htr =
     bind_err create_beam_state (\<lambda>beam_state.
     bind_err (htr beam_state) (\<lambda>hash_result.
     let hash_hex = hex hash_result
     in if hash_hex = zig_hash then Inr True else Inr False))"

text \<open>
  The module-level entry point calls \<open>main()\<close> as a statement: the interpreter exits
  normally unless the call raised.
\<close>

datatype process_outcome = ExitNormally | UncaughtException error

definition module_entry :: "error + bool \<Rightarrow> process_outcome" where
  "module_entry r = (case r of Inl e \<Rightarrow> UncaughtException e | Inr b \<Rightarrow> ExitNormally)"

definition validate_beam_state_hash :: "root_fn \<Rightarrow> process_outcome" where
  "validate_beam_state_hash htr = module_entry (main htr)"

section \<open>The script \<open>debug_simple_hash.py\<close>\<close>

definition SimpleTest :: ssz_type where
  "SimpleTest = Container ''SimpleTest'' [(''slot'', Uint64), (''proposer_index'', Uint32)]"

definition ConfigTest :: ssz_type where
  "ConfigTest = Container ''ConfigTest'' [(''num_validators'', Uint32), (''genesis_time'', Uint64)]"

definition BlockHeaderTest :: ssz_type where
  "BlockHeaderTest = Container ''BlockHeaderTest''
     [(''slot'', Uint64), (''proposer_index'', Uint32), (''parent_root'', Bytes32),
      (''state_root'', Bytes32), (''body_root'', Bytes32)]"

definition CheckpointTest :: ssz_type where
  "CheckpointTest = Container ''CheckpointTest'' [(''root'', Bytes32), (''slot'', Uint64)]"

definition simple_instance :: "error + ssz_value" where
  "simple_instance = construct SimpleTest
     [(''slot'', new Uint64 (IntArg 0)), (''proposer_index'', new Uint32 (IntArg 0))]"

definition test_simple_container :: "root_fn \<Rightarrow> error + string" where
  "test_simple_container htr =
     bind_err simple_instance (\<lambda>simple.
     bind_err (htr simple) (\<lambda>hash_result. Inr (hex hash_result)))"

definition config_instance :: "error + ssz_value" where
  "config_instance = construct ConfigTest
     [(''num_validators'', new Uint32 (IntArg 4096)), (''genesis_time'', new Uint64 (IntArg 0))]"

definition test_config :: "root_fn \<Rightarrow> error + string" where
  "test_config htr =
     bind_err config_instance (\<lambda>config.
     bind_err (htr config) (\<lambda>hash_result. Inr (hex hash_result)))"

definition header_instance :: "error + ssz_value" where
  "header_instance = construct BlockHeaderTest
     [(''slot'', new Uint64 (IntArg 0)),
      (''proposer_index'', new Uint32 (IntArg 0)),
      (''parent_root'', new Bytes32 (BytesArg (replicate 32 0))),
      (''state_root'', new Bytes32 (BytesArg (replicate 32 0))),
      (''body_root'', new Bytes32 (BytesArg (replicate 32 0)))]"

definition test_block_header :: "root_fn \<Rightarrow> error + string" where
  "test_block_header htr =
     bind_err header_instance (\<lambda>header.
     bind_err (htr header) (\<lambda>hash_result. Inr (hex hash_result)))"

definition checkpoint_instance :: "error + ssz_value" where
  "checkpoint_instance = construct CheckpointTest
     [(''root'', new Bytes32 (BytesArg (replicate 32 0))), (''slot'', new Uint64 (IntArg 0))]"

definition test_checkpoint :: "root_fn \<Rightarrow> error + string" where
  "test_checkpoint htr =
     bind_err checkpoint_instance (\<lambda>checkpoint.
     bind_err (htr checkpoint) (\<lambda>hash_result. Inr (hex hash_result)))"

text \<open>\<open>main\<close> of the debug script runs the four tests and drops what they return.\<close>

definition debug_simple_hash_main :: "root_fn \<Rightarrow> error + unit" where
  "debug_simple_hash_main htr =
     bind_err (test_simple_container htr) (\<lambda>r1.
     bind_err (test_config htr) (\<lambda>r2.
     bind_err (test_block_header htr) (\<lambda>r3.
     bind_err (test_checkpoint htr) (\<lambda>r4. Inr ()))))"

section \<open>Validated instances and the values the scripts build\<close>

text \<open>
  Modelled from the spec: a validated instance satisfies its schema at every level, which
  is what construction checks.
\<close>

fun valid :: "ssz_value \<Rightarrow> bool" where
  "valid (UintV w v) = (0 \<le> v \<and> v < 2 ^ bit_width w)"
| "valid (BytesV n bs) = (length bs = n \<and> list_all (\<lambda>b. 0 \<le> b \<and> b < 256) bs)"
| "valid (ContainerV name schema fs) =
     (map fst fs = map fst schema \<and> map (\<lambda>f. type_of (snd f)) fs = map snd schema \<and>
      list_all (\<lambda>f. valid (snd f)) fs)"
| "valid (ListV name T limit data) =
     (int (length data) \<le> limit \<and> list_all (\<lambda>v. type_of v = T) data \<and> list_all valid data)"
| "valid (BitlistV name limit bits) = (int (length bits) \<le> limit)"

text \<open>
  Modelled from the spec: instances are only built by construction, so the values handed
  to a constructor are validated instances themselves.
\<close>

fun arg_valid :: "arg \<Rightarrow> bool" where
  "arg_valid (Fields kwargs) = list_all (\<lambda>f. valid (snd f)) kwargs"
| "arg_valid (Data vs) = list_all valid vs"
| "arg_valid a = True"

text \<open>Attribute access on a container instance.\<close>

fun getattr :: "ssz_value \<Rightarrow> string \<Rightarrow> ssz_value option" where
  "getattr (ContainerV name schema fs) k = map_of fs k"
| "getattr v k = None"

text \<open>The instances \<open>create_beam_state\<close> builds on its way.\<close>

definition config_value :: ssz_value where
  "config_value = ContainerV ''BeamStateConfig'' (fields BeamStateConfig)
     [(''num_validators'', UintV W32 4096), (''genesis_time'', UintV W64 0)]"

definition block_header_value :: ssz_value where
  "block_header_value = ContainerV ''BeamBlockHeader'' (fields BeamBlockHeader)
     [(''slot'', UintV W64 0), (''proposer_index'', UintV W32 0),
      (''parent_root'', BytesV 32 (replicate 32 0)),
      (''state_root'', BytesV 32 (replicate 32 0)),
      (''body_root'', BytesV 32 (replicate 32 0))]"

definition checkpoint_value :: ssz_value where
  "checkpoint_value = ContainerV ''Mini3SFCheckpoint'' (fields Mini3SFCheckpoint)
     [(''root'', BytesV 32 (replicate 32 0)), (''slot'', UintV W64 0)]"

definition beam_state_value :: ssz_value where
  "beam_state_value = ContainerV ''BeamState'' (fields BeamState)
     [(''config'', config_value),
      (''slot'', UintV W64 0),
      (''latest_block_header'', block_header_value),
      (''latest_justified'', checkpoint_value),
      (''latest_finalized'', checkpoint_value),
      (''historical_block_hashes'', ListV ''HistoricalBlockHashesList'' Bytes32 262144 []),
      (''justified_slots'', BitlistV ''JustifiedSlotsBitlist'' 262144 []),
      (''justifications_roots'', ListV ''JustificationsRootsList'' Bytes32 262144 []),
      (''justifications_validators'', BitlistV ''JustificationsValidatorsBitlist'' 4096 [])]"

text \<open>The instances the tests of the debug script build.\<close>

definition simple_value :: ssz_value where
  "simple_value = ContainerV ''SimpleTest'' (fields SimpleTest)
     [(''slot'', UintV W64 0), (''proposer_index'', UintV W32 0)]"

definition config_test_value :: ssz_value where
  "config_test_value = ContainerV ''ConfigTest'' (fields ConfigTest)
     [(''num_validators'', UintV W32 4096), (''genesis_time'', UintV W64 0)]"

definition header_test_value :: ssz_value where
  "header_test_value = ContainerV ''BlockHeaderTest'' (fields BlockHeaderTest)
     [(''slot'', UintV W64 0), (''proposer_index'', UintV W32 0),
      (''parent_root'', BytesV 32 (replicate 32 0)),
      (''state_root'', BytesV 32 (replicate 32 0)),
      (''body_root'', BytesV 32 (replicate 32 0))]"

definition checkpoint_test_value :: ssz_value where
  "checkpoint_test_value = ContainerV ''CheckpointTest'' (fields CheckpointTest)
     [(''root'', BytesV 32 (replicate 32 0)), (''slot'', UintV W64 0)]"

section \<open>Evaluation helpers\<close>

lemma limits_eval: "VALIDATOR_REGISTRY_LIMIT = 4096" "HISTORICAL_ROOTS_LIMIT = 262144"
  by (simp_all add: VALIDATOR_REGISTRY_LIMIT_def HISTORICAL_ROOTS_LIMIT_def)

lemmas class_defs = BeamStateConfig_def BeamBlockHeader_def Mini3SFCheckpoint_def
  JustifiedSlotsBitlist_def JustificationsValidatorsBitlist_def HistoricalBlockHashesList_def
  JustificationsRootsList_def BeamState_def

lemma list_all_replicate: "list_all P (replicate n x) = (n = 0 \<or> P x)"
  by (induction n) auto

lemma hex_length: "length (hex bs) = 2 * length bs"
  by (induction bs) (simp_all add: hex_def)

subsection \<open>What the constructor calls of the scripts return\<close>

lemma config_eval:
  "construct BeamStateConfig
     [(''num_validators'', new Uint32 (IntArg VALIDATOR_REGISTRY_LIMIT)),
      (''genesis_time'', new Uint64 (IntArg 0))] = Inr config_value"
  by (simp add: construct_def bind_err_def BeamStateConfig_def limits_eval config_value_def)

lemma header_eval:
  "construct BeamBlockHeader
     [(''slot'', new Uint64 (IntArg 0)),
      (''proposer_index'', new Uint32 (IntArg 0)),
      (''parent_root'', new Bytes32 (BytesArg (replicate 32 0))),
      (''state_root'', new Bytes32 (BytesArg (replicate 32 0))),
      (''body_root'', new Bytes32 (BytesArg (replicate 32 0)))] = Inr block_header_value"
  by (simp add: construct_def bind_err_def BeamBlockHeader_def block_header_value_def
      list_all_replicate)

lemma checkpoint_eval:
  "construct Mini3SFCheckpoint
     [(''root'', new Bytes32 (BytesArg (replicate 32 0))),
      (''slot'', new Uint64 (IntArg 0))] = Inr checkpoint_value"
  by (simp add: construct_def bind_err_def Mini3SFCheckpoint_def checkpoint_value_def
      list_all_replicate)

lemma type_of_values:
  "type_of config_value = BeamStateConfig"
  "type_of block_header_value = BeamBlockHeader"
  "type_of checkpoint_value = Mini3SFCheckpoint"
  by (simp_all add: config_value_def block_header_value_def checkpoint_value_def class_defs)

lemma create_beam_state_eval: "create_beam_state = Inr beam_state_value"
  unfolding create_beam_state_def config_eval header_eval checkpoint_eval
  by (simp add: construct_def bind_err_def BeamState_def beam_state_value_def type_of_values
      limits_eval JustifiedSlotsBitlist_def JustificationsValidatorsBitlist_def
      HistoricalBlockHashesList_def JustificationsRootsList_def)

lemma simple_instance_eval: "simple_instance = Inr simple_value"
  by (simp add: simple_instance_def construct_def bind_err_def SimpleTest_def simple_value_def)

lemma debug_instances_eval:
  "config_instance = Inr config_test_value"
  "header_instance = Inr header_test_value"
  "checkpoint_instance = Inr checkpoint_test_value"
  by (simp_all add: config_instance_def header_instance_def checkpoint_instance_def
      construct_def bind_err_def ConfigTest_def BlockHeaderTest_def CheckpointTest_def
      config_test_value_def header_test_value_def checkpoint_test_value_def list_all_replicate)

lemma valid_values:
  "valid config_value" "valid block_header_value" "valid checkpoint_value"
  by (simp_all add: config_value_def block_header_value_def checkpoint_value_def class_defs
      list_all_replicate)

lemma valid_beam_state_value: "valid beam_state_value"
  by (simp add: beam_state_value_def valid_values type_of_values class_defs limits_eval)

lemma valid_simple_value: "valid simple_value"
  by (simp add: simple_value_def SimpleTest_def)

lemma valid_debug_values:
  "valid config_test_value" "valid header_test_value" "valid checkpoint_test_value"
  by (simp_all add: config_test_value_def header_test_value_def checkpoint_test_value_def
      ConfigTest_def BlockHeaderTest_def CheckpointTest_def list_all_replicate)

section \<open>Properties of the Merkleizer\<close>

subsection \<open>An all-zero subtree reduces to the zero hash of its depth\<close>

lemma hash_level_replicate_even:
  "hash_level h z (replicate (2 * k) c) = replicate k (h c c)"
  by (induction k) simp_all

lemma reduce_zero_subtree:
  "reduce h level d (replicate (2 ^ d) (zero_hash h level)) = [zero_hash h (level + d)]"
proof (induction d arbitrary: level)
  case 0
  show ?case by simp
next
  case (Suc d)
  have "hash_level h (zero_hash h level) (replicate (2 ^ Suc d) (zero_hash h level))
        = replicate (2 ^ d) (zero_hash h (Suc level))"
    using hash_level_replicate_even [of h "zero_hash h level" "2 ^ d" "zero_hash h level"]
    by simp
  then show ?case
    using Suc.IH [of "Suc level"] by simp
qed

lemma merkleize_empty:
  "merkleize h [] (Some l) = zero_hash h (ceil_log2 l)"
  using reduce_zero_subtree [of h 0 "ceil_log2 l"]
  by (simp add: merkleize_def zero_chunk_def)

subsection \<open>Every root is one chunk\<close>

lemma zero_hash_length:
  "(\<And>a b. length (h a b) = 32) \<Longrightarrow> length (zero_hash h i) = 32"
  by (cases i) (simp_all add: zero_chunk_def)

lemma hash_level_chunks:
  "(\<And>a b. length (h a b) = 32) \<Longrightarrow> c \<in> set (hash_level h z cs) \<Longrightarrow> length c = 32"
  by (induction h z cs rule: hash_level.induct) auto

lemma hash_level_nonempty: "cs \<noteq> [] \<Longrightarrow> hash_level h z cs \<noteq> []"
  by (induction h z cs rule: hash_level.induct) auto

lemma reduce_nonempty: "cs \<noteq> [] \<Longrightarrow> reduce h level d cs \<noteq> []"
  by (induction d arbitrary: level cs) (simp_all add: hash_level_nonempty)

lemma reduce_chunks:
  "(\<And>a b. length (h a b) = 32) \<Longrightarrow> (\<And>c. c \<in> set cs \<Longrightarrow> length c = 32)
   \<Longrightarrow> c \<in> set (reduce h level d cs) \<Longrightarrow> length c = 32"
proof (induction d arbitrary: level cs)
  case 0
  then show ?case by simp
next
  case (Suc d)
  show ?case
  proof (rule Suc.IH [of "hash_level h (zero_hash h level) cs" "Suc level"])
    show "\<And>a b. length (h a b) = 32" by (rule Suc.prems(1))
    show "\<And>c. c \<in> set (hash_level h (zero_hash h level) cs) \<Longrightarrow> length c = 32"
      using hash_level_chunks [of h] Suc.prems(1) by blast
    show "c \<in> set (reduce h (Suc level) d (hash_level h (zero_hash h level) cs))"
      using Suc.prems(3) by simp
  qed
qed

lemma merkleize_length:
  assumes h: "\<And>a b. length (h a b) = 32"
    and cs: "\<And>c. c \<in> set cs \<Longrightarrow> length c = 32"
  shows "length (merkleize h cs limit) = 32"
proof -
  define depth where
    "depth = (case limit of Some l \<Rightarrow> ceil_log2 l | None \<Rightarrow> ceil_log2 (length cs))"
  define padded where "padded = cs @ replicate (2 ^ depth - length cs) zero_chunk"
  have pad: "\<And>c. c \<in> set padded \<Longrightarrow> length c = 32"
    using cs by (auto simp: padded_def zero_chunk_def)
  show ?thesis
  proof (cases "reduce h 0 depth padded")
    case Nil
    then show ?thesis
      using zero_hash_length [of h depth] h
      by (simp add: merkleize_def Let_def depth_def padded_def zero_chunk_def)
  next
    case (Cons node rest)
    then have "node \<in> set (reduce h 0 depth padded)" by simp
    then have "length node = 32"
      using reduce_chunks [of h padded _ 0 depth] h pad by blast
    then show ?thesis
      using Cons by (simp add: merkleize_def Let_def depth_def padded_def zero_chunk_def)
  qed
qed

lemma pack_chunks: "c \<in> set (pack bs) \<Longrightarrow> length c = 32"
proof (induction bs rule: pack.induct)
  case (1 bs)
  show ?case
  proof (cases "bs = []")
    case True
    with "1.prems" show ?thesis by (simp add: pack.simps)
  next
    case False
    with "1.prems" have
      "c = take 32 bs @ replicate (32 - length (take 32 bs)) 0 \<or> c \<in> set (pack (drop 32 bs))"
      by (subst (asm) pack.simps) simp
    then show ?thesis
      using "1.IH" False by auto
  qed
qed

lemma leaf_root_length:
  "(\<And>a b. length (h a b) = 32) \<Longrightarrow> length (leaf_root h ser) = 32"
  using merkleize_length [of h "pack ser" None] pack_chunks
  by (auto simp: leaf_root_def)

subsection \<open>Construction returns validated instances\<close>

lemma bind_fields_valid:
  "bind_fields schema kwargs = Some fs \<Longrightarrow> list_all (\<lambda>f. valid (snd f)) kwargs
   \<Longrightarrow> map fst fs = map fst schema \<and> map (\<lambda>f. type_of (snd f)) fs = map snd schema
       \<and> list_all (\<lambda>f. valid (snd f)) fs"
proof (induction schema arbitrary: fs)
  case Nil
  then show ?case by simp
next
  case (Cons f schema)
  from Cons.prems(1) obtain v fs' where v: "map_of kwargs (fst f) = Some v" "type_of v = snd f"
    and fs': "bind_fields schema kwargs = Some fs'" and fs: "fs = (fst f, v) # fs'"
    by (auto split: option.splits if_splits)
  have "(fst f, v) \<in> set kwargs"
    using v(1) by (rule map_of_SomeD)
  then have "valid v"
    using Cons.prems(2) by (auto simp: list_all_iff)
  then show ?case
    using Cons.IH [OF fs' Cons.prems(2)] v(2) fs by simp
qed

lemma new_valid:
  assumes "new T a = Inr v" and "arg_valid a"
  shows "valid v \<and> type_of v = T"
proof (cases T)
  case (Uint w)
  with assms show ?thesis by (cases a) (auto split: if_splits)
next
  case (ByteVector n)
  with assms show ?thesis by (cases a) (auto split: if_splits)
next
  case (Container name schema)
  with assms show ?thesis
    by (cases a) (auto split: if_splits option.splits dest: bind_fields_valid)
next
  case (SSZList name E limit)
  with assms show ?thesis by (cases a) (auto split: if_splits)
next
  case (BaseBitlist name limit)
  with assms show ?thesis by (cases a) (auto split: if_splits)
qed

subsection \<open>\<open>hash_tree_root\<close> is total over validated instances\<close>

lemma sequence_err_Inr:
  "(\<And>r. r \<in> set rs \<Longrightarrow> \<exists>x. r = Inr x \<and> P x)
   \<Longrightarrow> \<exists>xs. sequence_err rs = Inr xs \<and> (\<forall>x \<in> set xs. P x)"
proof (induction rs)
  case Nil
  show ?case by simp
next
  case (Cons r rs)
  then obtain x where x: "r = Inr x" "P x" by auto
  from Cons obtain xs where xs: "sequence_err rs = Inr xs" "\<forall>x \<in> set xs. P x" by auto
  show ?case using x xs by (simp add: bind_err_def)
qed

lemma serialize_basic_valid:
  "valid v \<Longrightarrow> type_of v = Uint w \<Longrightarrow> \<exists>s. serialize_basic v = Inr s"
  by (cases v) (simp_all add: encode_def)

lemma hash_tree_root_total:
  assumes "valid v"
  shows "\<exists>d. hash_tree_root h v = Inr d \<and> ((\<forall>a b. length (h a b) = 32) \<longrightarrow> length d = 32)"
  using assms
proof (induction v)
  case (UintV w x)
  then show ?case
    using leaf_root_length [of h] by (simp add: encode_def bind_err_def)
next
  case (BytesV n bs)
  then show ?case
    using leaf_root_length [of h] by (simp add: encode_fixed_bytes_def bind_err_def)
next
  case (ContainerV name schema fs)
  have "\<And>r. r \<in> set (map (\<lambda>f. hash_tree_root h (snd f)) fs)
        \<Longrightarrow> \<exists>d. r = Inr d \<and> ((\<forall>a b. length (h a b) = 32) \<longrightarrow> length d = 32)"
  proof -
    fix r assume "r \<in> set (map (\<lambda>f. hash_tree_root h (snd f)) fs)"
    then obtain f where f: "f \<in> set fs" "r = hash_tree_root h (snd f)" by auto
    have "valid (snd f)"
      using ContainerV.prems f(1) by (simp add: list_all_iff)
    moreover have "snd f \<in> Basic_BNFs.snds f"
      by (cases f) simp
    ultimately show "\<exists>d. r = Inr d \<and> ((\<forall>a b. length (h a b) = 32) \<longrightarrow> length d = 32)"
      using ContainerV.IH [of f "snd f"] f by simp
  qed
  from sequence_err_Inr [of "map (\<lambda>f. hash_tree_root h (snd f)) fs"
      "\<lambda>d. (\<forall>a b. length (h a b) = 32) \<longrightarrow> length d = 32", OF this]
  obtain roots where roots: "sequence_err (map (\<lambda>f. hash_tree_root h (snd f)) fs) = Inr roots"
    "\<forall>d \<in> set roots. (\<forall>a b. length (h a b) = 32) \<longrightarrow> length d = 32"
    by blast
  have "(\<forall>a b. length (h a b) = 32) \<longrightarrow> length (merkleize h roots None) = 32"
    using merkleize_length [of h roots None] roots(2) by blast
  then show ?case
    using ContainerV.prems roots(1) by (simp add: bind_err_def)
next
  case (ListV name T limit data)
  have mix: "(\<forall>a b. length (h a b) = 32) \<longrightarrow> length (mix_in_length h c n) = 32" for c n
    by (simp add: mix_in_length_def)
  show ?case
  proof (cases "is_basic T")
    case True
    then obtain w where T: "T = Uint w" by (cases T) simp_all
    have "\<And>r. r \<in> set (map serialize_basic data) \<Longrightarrow> \<exists>s. r = Inr s \<and> True"
      using ListV.prems serialize_basic_valid [of _ w] T by (auto simp: list_all_iff)
    from sequence_err_Inr [of "map serialize_basic data" "\<lambda>s. True", OF this]
    obtain sers where "sequence_err (map serialize_basic data) = Inr sers" by blast
    then show ?thesis
      using ListV.prems True mix by (simp add: bind_err_def)
  next
    case False
    have "\<And>r. r \<in> set (map (hash_tree_root h) data)
        \<Longrightarrow> \<exists>d. r = Inr d \<and> ((\<forall>a b. length (h a b) = 32) \<longrightarrow> length d = 32)"
      using ListV.IH ListV.prems by (auto simp: list_all_iff)
    from sequence_err_Inr [of "map (hash_tree_root h) data"
      "\<lambda>d. (\<forall>a b. length (h a b) = 32) \<longrightarrow> length d = 32", OF this]
    obtain roots where "sequence_err (map (hash_tree_root h) data) = Inr roots" by blast
    then show ?thesis
      using ListV.prems False mix by (simp add: bind_err_def)
  qed
next
  case (BitlistV name limit bits)
  then show ?case by (simp add: mix_in_length_def)
qed

lemma digest_of_valid:
  assumes "\<forall>a b. length (h a b) = 32" and "valid v"
  shows "\<exists>d. hash_tree_root h v = Inr d \<and> length d = 32"
  using hash_tree_root_total [OF assms(2), of h] assms(1) by auto

subsection \<open>The depth of a capacity is the ceiling of its binary logarithm\<close>

lemma ceil_log2_le_iff: "ceil_log2 n \<le> d \<longleftrightarrow> n \<le> 2 ^ d"
proof (induction n arbitrary: d rule: ceil_log2.induct)
  case (1 n)
  show ?case
  proof (cases "n \<le> 1")
    case True
    have "(1::nat) \<le> 2 ^ d" by simp
    with True have "n \<le> 2 ^ d" by linarith
    with True show ?thesis by (simp add: ceil_log2.simps)
  next
    case False
    show ?thesis
    proof (cases d)
      case 0
      with False show ?thesis by (simp add: ceil_log2.simps)
    next
      case (Suc d')
      have "ceil_log2 ((n + 1) div 2) \<le> d' \<longleftrightarrow> (n + 1) div 2 \<le> 2 ^ d'"
        using "1.IH" [of d'] False by simp
      moreover have "(n + 1) div 2 \<le> 2 ^ d' \<longleftrightarrow> n \<le> 2 * 2 ^ d'"
        by linarith
      ultimately show ?thesis
        using False Suc by (simp add: ceil_log2.simps)
    qed
  qed
qed

lemma nat_ceiling_log2_le_iff:
  fixes x :: real
  assumes "0 < x"
  shows "nat \<lceil>log 2 x\<rceil> \<le> d \<longleftrightarrow> x \<le> 2 ^ d"
proof -
  have "nat \<lceil>log 2 x\<rceil> \<le> d \<longleftrightarrow> \<lceil>log 2 x\<rceil> \<le> int d" by linarith
  also have "\<dots> \<longleftrightarrow> log 2 x \<le> real d" by (simp add: ceiling_le_iff)
  also have "\<dots> \<longleftrightarrow> x \<le> 2 powr real d" using assms by (simp add: log_le_iff)
  also have "\<dots> \<longleftrightarrow> x \<le> 2 ^ d" by (simp add: powr_realpow)
  finally show ?thesis .
qed

lemma elements_per_chunk_pos: "0 < elements_per_chunk T"
proof (cases T)
  case (Uint w)
  then show ?thesis by (cases w) simp_all
qed simp_all

lemma int_div_le_iff:
  fixes a e k :: int
  assumes "0 < e"
  shows "a div e \<le> k \<longleftrightarrow> a < (k + 1) * e"
proof
  assume le: "a div e \<le> k"
  have "a = e * (a div e) + a mod e" by simp
  moreover have "a mod e < e" using assms by simp
  moreover have "e * (a div e) \<le> e * k"
    using le assms by (simp add: mult_left_mono)
  ultimately have "a < e * k + e" by linarith
  then show "a < (k + 1) * e" by (simp add: algebra_simps)
next
  assume lt: "a < (k + 1) * e"
  show "a div e \<le> k"
  proof (rule ccontr)
    assume "\<not> a div e \<le> k"
    then have "k + 1 \<le> a div e" by simp
    then have "e * (k + 1) \<le> e * (a div e)"
      using assms by (simp add: mult_left_mono)
    moreover have "a = e * (a div e) + a mod e" by simp
    moreover have "0 \<le> a mod e" using assms by simp
    ultimately have "e * (k + 1) \<le> a" by linarith
    with lt show False by (simp add: algebra_simps)
  qed
qed

lemma chunk_limit_le_iff:
  assumes "0 < limit"
  shows "chunk_limit T limit \<le> 2 ^ d
         \<longleftrightarrow> real_of_int limit / real (elements_per_chunk T) \<le> 2 ^ d"
proof -
  define e where "e = int (elements_per_chunk T)"
  have e: "0 < e" using elements_per_chunk_pos [of T] by (simp add: e_def)
  have nonneg: "0 \<le> (limit + e - 1) div e"
    using assms e by (simp add: pos_imp_zdiv_nonneg_iff)
  have "chunk_limit T limit \<le> 2 ^ d \<longleftrightarrow> (limit + e - 1) div e \<le> 2 ^ d"
    using nonneg by (simp add: chunk_limit_def e_def nat_le_iff)
  also have "\<dots> \<longleftrightarrow> limit + e - 1 < (2 ^ d + 1) * e"
    using e by (rule int_div_le_iff)
  also have "\<dots> \<longleftrightarrow> limit \<le> 2 ^ d * e"
  proof -
    have "(2 ^ d + 1) * e = 2 ^ d * e + e" by (simp add: algebra_simps)
    then show ?thesis by linarith
  qed
  also have "\<dots> \<longleftrightarrow> real_of_int limit \<le> 2 ^ d * real_of_int e"
    by (metis of_int_le_iff of_int_mult of_int_numeral of_int_power)
  also have "\<dots> \<longleftrightarrow> real_of_int limit / real_of_int e \<le> 2 ^ d"
    using e by (simp add: pos_divide_le_eq)
  finally show ?thesis by (simp add: e_def)
qed

lemma depth_of_limit:
  assumes "0 < limit"
  shows "ceil_log2 (chunk_limit T limit)
         = nat \<lceil>log 2 (real_of_int limit / real (elements_per_chunk T))\<rceil>"
proof -
  have pos: "0 < real_of_int limit / real (elements_per_chunk T)"
    using assms elements_per_chunk_pos [of T] by simp
  have "ceil_log2 (chunk_limit T limit) \<le> d
        \<longleftrightarrow> nat \<lceil>log 2 (real_of_int limit / real (elements_per_chunk T))\<rceil> \<le> d" for d
    using ceil_log2_le_iff [of "chunk_limit T limit" d] chunk_limit_le_iff [OF assms, of T d]
      nat_ceiling_log2_le_iff [OF pos, of d] by simp
  then show ?thesis
    by (meson order_antisym order_refl)
qed

lemma ceil_log2_16: "ceil_log2 16 = 4"
  by (simp add: ceil_log2.simps)

lemma ceil_log2_1024: "ceil_log2 1024 = 10"
  by (simp add: ceil_log2.simps)

lemma ceil_log2_262144: "ceil_log2 262144 = 18"
  by (simp add: ceil_log2.simps)

lemma empty_bitlist_root:
  "0 \<le> limit \<Longrightarrow> hash_tree_root h (BitlistV name limit []) =
     Inr (h (zero_hash h (ceil_log2 (bitlist_chunk_limit limit)))
            (serialize_uint64_le 0 @ replicate 24 0))"
  by (simp add: merkleize_empty mix_in_length_def pack.simps bits_to_bytes.simps)

section \<open>The table never changes a root\<close>

lemma table_ok_nth: "table_ok h t \<Longrightarrow> i < length t \<Longrightarrow> t ! i = zero_hash h i"
proof -
  assume ok: "table_ok h t" and i: "i < length t"
  have "t ! i = map (zero_hash h) [0..<length t] ! i"
    using ok by (simp add: table_ok_def)
  also have "\<dots> = zero_hash h i"
    using i by simp
  finally show ?thesis .
qed

lemma table_ok_Nil: "table_ok h []"
  by (simp add: table_ok_def)

lemma table_ok_step:
  assumes "table_ok h t"
  shows "table_ok h (if t = [] then [zero_chunk] else t @ [h (last t) (last t)])"
proof (cases "t = []")
  case True
  then show ?thesis by (simp add: table_ok_def)
next
  case False
  then have "last t = t ! (length t - 1)"
    by (simp add: last_conv_nth)
  also have "\<dots> = zero_hash h (length t - 1)"
    using table_ok_nth [OF assms, of "length t - 1"] False by simp
  finally have l: "last t = zero_hash h (length t - 1)" .
  obtain n where n: "length t = Suc n"
    using False by (cases t) simp_all
  have "h (last t) (last t) = zero_hash h (length t)"
    using l n by simp
  moreover have "t = map (zero_hash h) [0..<length t]"
    using assms by (simp add: table_ok_def)
  ultimately have "t @ [h (last t) (last t)] = map (zero_hash h) [0..<Suc (length t)]"
    by simp
  then show ?thesis
    using False by (simp add: table_ok_def)
qed

lemma grow_table_ok:
  "table_ok h t \<Longrightarrow> table_ok h (grow_table h k t) \<and> length (grow_table h k t) = length t + k"
proof (induction k arbitrary: t)
  case 0
  then show ?case by simp
next
  case (Suc k)
  let ?t = "if t = [] then [zero_chunk] else t @ [h (last t) (last t)]"
  have "table_ok h ?t" using table_ok_step [OF Suc.prems] .
  moreover have "length ?t = Suc (length t)" by simp
  ultimately show ?case
    using Suc.IH [of ?t] by simp
qed

lemma zero_hash_st_ok:
  assumes "table_ok h t"
  shows "\<exists>t'. zero_hash_st h i t = (zero_hash h i, t') \<and> table_ok h t'"
proof -
  let ?t = "grow_table h (Suc i - length t) t"
  have ok: "table_ok h ?t" and len: "length ?t = length t + (Suc i - length t)"
    using grow_table_ok [OF assms, of "Suc i - length t"] by simp_all
  have "i < length ?t" using len by simp
  then have "?t ! i = zero_hash h i"
    using table_ok_nth [OF ok] by simp
  then show ?thesis
    using ok by (simp add: zero_hash_st_def Let_def)
qed

lemma reduce_st_ok:
  "table_ok h t \<Longrightarrow> \<exists>t'. reduce_st h level d cs t = (reduce h level d cs, t') \<and> table_ok h t'"
proof (induction d arbitrary: level cs t)
  case 0
  then show ?case by simp
next
  case (Suc d)
  obtain t1 where t1: "zero_hash_st h level t = (zero_hash h level, t1)" "table_ok h t1"
    using zero_hash_st_ok [OF Suc.prems, of level] by blast
  show ?case
    using Suc.IH [OF t1(2), of "Suc level" "hash_level h (zero_hash h level) cs"] t1(1)
    by simp
qed

lemma merkleize_st_ok:
  assumes "table_ok h t"
  shows "\<exists>t'. merkleize_st h cs limit t = (merkleize h cs limit, t') \<and> table_ok h t'"
proof -
  define depth where
    "depth = (case limit of Some l \<Rightarrow> ceil_log2 l | None \<Rightarrow> ceil_log2 (length cs))"
  define padded where "padded = cs @ replicate (2 ^ depth - length cs) zero_chunk"
  obtain t0 where t0: "zero_hash_st h 0 t = (zero_chunk, t0)" "table_ok h t0"
    using zero_hash_st_ok [OF assms, of 0] by auto
  obtain t1 where t1: "reduce_st h 0 depth padded t0 = (reduce h 0 depth padded, t1)"
    "table_ok h t1"
    using reduce_st_ok [OF t0(2), of 0 depth padded] by blast
  obtain t2 where t2: "zero_hash_st h depth t1 = (zero_hash h depth, t2)" "table_ok h t2"
    using zero_hash_st_ok [OF t1(2), of depth] by blast
  show ?thesis
  proof (cases "length cs = 0 \<and> limit = None")
    case True
    then show ?thesis
      using t0 by (simp add: merkleize_st_def merkleize_def)
  next
    case False
    show ?thesis
    proof (cases "reduce h 0 depth padded")
      case Nil
      then show ?thesis
        using False t0 t1 t2
        by (auto simp: merkleize_st_def merkleize_def Let_def depth_def padded_def)
    next
      case (Cons node rest)
      then show ?thesis
        using False t0 t1
        by (auto simp: merkleize_st_def merkleize_def Let_def depth_def padded_def)
    qed
  qed
qed

lemma leaf_root_st_ok:
  assumes "table_ok h t"
  shows "\<exists>t'. leaf_root_st h ser t = (leaf_root h ser, t') \<and> table_ok h t'"
  using merkleize_st_ok [OF assms, of "pack ser" None] assms
  by (auto simp: leaf_root_st_def leaf_root_def)

lemma hash_tree_root_st_ok:
  "table_ok h t \<Longrightarrow>
     \<exists>t'. hash_tree_root_st h v t = (hash_tree_root h v, t') \<and> table_ok h t'"
  "table_ok h t \<Longrightarrow>
     \<exists>t'. roots_st h vs t = (sequence_err (map (hash_tree_root h) vs), t') \<and> table_ok h t'"
  "table_ok h t \<Longrightarrow>
     \<exists>t'. field_roots_st h fs t = (sequence_err (map (\<lambda>f. hash_tree_root h (snd f)) fs), t')
          \<and> table_ok h t'"
proof (induction h v t and h vs t and h fs t rule: hash_tree_root_st_roots_st_field_roots_st.induct)
  case (1 h w v t)
  show ?case
  proof (cases "encode v (bit_width w)")
    case (Inl e)
    then show ?thesis using "1.prems" by (simp add: bind_err_def)
  next
    case (Inr ser)
    then show ?thesis
      using leaf_root_st_ok [OF "1.prems", of ser] by (auto simp: bind_err_def)
  qed
next
  case (2 h n bs t)
  show ?case
  proof (cases "encode_fixed_bytes bs n")
    case (Inl e)
    then show ?thesis using "2.prems" by (simp add: bind_err_def)
  next
    case (Inr ser)
    then show ?thesis
      using leaf_root_st_ok [OF "2.prems", of ser] by (auto simp: bind_err_def)
  qed
next
  case (3 h name schema fs t)
  show ?case
  proof (cases "map fst fs = map fst schema \<and> map (\<lambda>f. type_of (snd f)) fs = map snd schema")
    case False
    then show ?thesis using "3.prems" by auto
  next
    case True
    obtain t1 where t1:
      "field_roots_st h fs t = (sequence_err (map (\<lambda>f. hash_tree_root h (snd f)) fs), t1)"
      "table_ok h t1"
      using "3.IH" [OF True "3.prems"] by blast
    show ?thesis
    proof (cases "sequence_err (map (\<lambda>f. hash_tree_root h (snd f)) fs)")
      case (Inl e)
      then show ?thesis using True t1 by (simp add: bind_err_def)
    next
      case (Inr roots)
      then show ?thesis
        using True t1 merkleize_st_ok [OF t1(2), of roots None]
        by (auto simp: bind_err_def)
    qed
  qed
next
  case (4 h name T limit data t)
  show ?case
  proof (cases "int (length data) \<le> limit \<and> list_all (\<lambda>v. type_of v = T) data")
    case False
    then show ?thesis using "4.prems" by auto
  next
    case True
    show ?thesis
    proof (cases "is_basic T")
      case basic: True
      show ?thesis
      proof (cases "sequence_err (map serialize_basic data)")
        case (Inl e)
        then show ?thesis using True basic "4.prems" by (simp add: bind_err_def)
      next
        case (Inr sers)
        then show ?thesis
          using True basic
            merkleize_st_ok [OF "4.prems", of "pack (concat sers)" "Some (chunk_limit T limit)"]
          by (auto simp: bind_err_def)
      qed
    next
      case nonbasic: False
      obtain t1 where t1:
        "roots_st h data t = (sequence_err (map (hash_tree_root h) data), t1)" "table_ok h t1"
        using "4.IH" [OF True nonbasic "4.prems"] by blast
      show ?thesis
      proof (cases "sequence_err (map (hash_tree_root h) data)")
        case (Inl e)
        then show ?thesis using True nonbasic t1 by (simp add: bind_err_def)
      next
        case (Inr chunks)
        then show ?thesis
          using True nonbasic t1
            merkleize_st_ok [OF t1(2), of chunks "Some (chunk_limit T limit)"]
          by (auto simp: bind_err_def)
      qed
    qed
  qed
next
  case (5 h name limit bits t)
  then show ?case
    using merkleize_st_ok [OF "5.prems", of "pack (bits_to_bytes bits)"
        "Some (bitlist_chunk_limit limit)"]
    by auto
next
  case (6 h t)
  then show ?case by simp
next
  case (7 h v vs t)
  obtain t1 where t1: "hash_tree_root_st h v t = (hash_tree_root h v, t1)" "table_ok h t1"
    using "7.IH"(1) [OF "7.prems"] by blast
  show ?case
  proof (cases "hash_tree_root h v")
    case (Inl e)
    then show ?thesis using t1 by (simp add: bind_err_def)
  next
    case (Inr r)
    obtain t2 where t2: "roots_st h vs t1 = (sequence_err (map (hash_tree_root h) vs), t2)"
      "table_ok h t2"
      using "7.IH"(2) [OF _ _ t1(2)] t1(1) Inr by auto
    show ?thesis
      using t1 t2 Inr by (cases "sequence_err (map (hash_tree_root h) vs)") (simp_all add: bind_err_def)
  qed
next
  case (8 h t)
  then show ?case by simp
next
  case (9 h f fs t)
  obtain t1 where t1: "hash_tree_root_st h (snd f) t = (hash_tree_root h (snd f), t1)"
    "table_ok h t1"
    using "9.IH"(1) [OF "9.prems"] by blast
  show ?case
  proof (cases "hash_tree_root h (snd f)")
    case (Inl e)
    then show ?thesis using t1 by (simp add: bind_err_def)
  next
    case (Inr r)
    obtain t2 where t2:
      "field_roots_st h fs t1 = (sequence_err (map (\<lambda>f. hash_tree_root h (snd f)) fs), t2)"
      "table_ok h t2"
      using "9.IH"(2) [OF _ _ t1(2)] t1(1) Inr by auto
    show ?thesis
      using t1 t2 Inr
      by (cases "sequence_err (map (\<lambda>f. hash_tree_root h (snd f)) fs)")
         (simp_all add: bind_err_def)
  qed
qed

lemma ceil_log2_2: "ceil_log2 (Suc (Suc 0)) = Suc 0"
proof -
  have "ceil_log2 (Suc (Suc 0)) = Suc (ceil_log2 (Suc 0))"
    by (subst ceil_log2.simps) simp
  also have "ceil_log2 (Suc 0) = 0"
    by (subst ceil_log2.simps) simp
  finally show ?thesis .
qed

lemma merkleize_pair: "merkleize h [a, b] None = h a b"
  by (simp add: merkleize_def Let_def ceil_log2_2)

lemma zero_leaf_roots:
  "leaf_root h (le_bytes 8 0) = zero_chunk" "leaf_root h (le_bytes 4 0) = zero_chunk"
  by (simp_all add: leaf_root_def zero_chunk_def eval_nat_numeral)

lemma simple_value_root_generic:
  "hash_tree_root h simple_value = Inr (h zero_chunk zero_chunk)"
  by (simp add: simple_value_def SimpleTest_def encode_def bind_err_def zero_leaf_roots
      merkleize_pair)

text \<open>The two calls on \<open>SimpleTest(slot=Uint64(0), proposer_index=Uint32(0))\<close>, step by step.\<close>

lemma zero_hash_st_fresh: "zero_hash_st h 0 [] = (zero_chunk, [zero_chunk])"
  by (simp add: zero_hash_st_def)

lemma zero_hash_st_reuse: "zero_hash_st h 0 [zero_chunk] = (zero_chunk, [zero_chunk])"
  by (simp add: zero_hash_st_def)

lemma merkleize_st_pair_fresh: "merkleize_st h [a, b] None [] = (h a b, [zero_chunk])"
  by (simp add: merkleize_st_def Let_def ceil_log2_2 zero_hash_st_fresh zero_hash_st_reuse)

lemma merkleize_st_pair_reuse:
  "merkleize_st h [a, b] None [zero_chunk] = (h a b, [zero_chunk])"
  by (simp add: merkleize_st_def Let_def ceil_log2_2 zero_hash_st_reuse)

lemma zero_leaf_roots_st:
  "leaf_root_st h (le_bytes 8 0) t = (zero_chunk, t)"
  "leaf_root_st h (le_bytes 4 0) t = (zero_chunk, t)"
  by (simp_all add: leaf_root_st_def zero_chunk_def eval_nat_numeral)

lemma simple_value_first_call:
  "hash_tree_root_st h simple_value [] = (Inr (h zero_chunk zero_chunk), [zero_chunk])"
  by (simp add: simple_value_def SimpleTest_def encode_def zero_leaf_roots_st
      merkleize_st_pair_fresh)

lemma simple_value_second_call:
  "hash_tree_root_st h simple_value [zero_chunk]
     = (Inr (h zero_chunk zero_chunk), [zero_chunk])"
  by (simp add: simple_value_def SimpleTest_def encode_def zero_leaf_roots_st
      merkleize_st_pair_reuse)

section \<open>SHA-256 on the zero subtrees\<close>

lemma state_bytes_length: "length (state_bytes s) = 32"
  by (induction s rule: state_bytes.induct) simp

lemma sha256_nodes_length: "length (sha256_nodes a b) = 32"
  by (simp add: sha256_nodes_def sha256_def state_bytes_length)

text \<open>The two standard test vectors: the empty message and \<open>abc\<close>.\<close>

lemma sha256_empty:
  "sha256 [] = [227, 176, 196, 66, 152, 252, 28, 20, 154, 251, 244, 200, 153, 111, 185, 36,
                39, 174, 65, 228, 100, 155, 147, 76, 164, 149, 153, 27, 120, 82, 184, 85]"
  by code_simp

lemma sha256_abc:
  "sha256 [97, 98, 99] = [186, 120, 22, 191, 143, 1, 207, 234, 65, 65, 64, 222, 93, 174, 34, 35,
                          176, 3, 97, 163, 150, 23, 122, 156, 180, 16, 255, 97, 242, 0, 21, 173]"
  by code_simp

text \<open>
  The zero-hash table up to depth 10, one step at a time, and the two roots with the
  length 0 mixed in.
\<close>

lemma sha256_zero_0:
  "sha256_nodes
     [0, 0, 0, 0, 0, 0, 0, 0, 0, 0, 0, 0, 0, 0, 0, 0,
      0, 0, 0, 0, 0, 0, 0, 0, 0, 0, 0, 0, 0, 0, 0, 0]
     [0, 0, 0, 0, 0, 0, 0, 0, 0, 0, 0, 0, 0, 0, 0, 0,
      0, 0, 0, 0, 0, 0, 0, 0, 0, 0, 0, 0, 0, 0, 0, 0]
   = [245, 165, 253, 66, 209, 106, 32, 48, 39, 152, 239, 110, 211, 9, 151, 155,
      67, 0, 61, 35, 32, 217, 240, 232, 234, 152, 49, 169, 39, 89, 251, 75]"
  by code_simp

lemma sha256_zero_1:
  "sha256_nodes
     [245, 165, 253, 66, 209, 106, 32, 48, 39, 152, 239, 110, 211, 9, 151, 155,
      67, 0, 61, 35, 32, 217, 240, 232, 234, 152, 49, 169, 39, 89, 251, 75]
     [245, 165, 253, 66, 209, 106, 32, 48, 39, 152, 239, 110, 211, 9, 151, 155,
      67, 0, 61, 35, 32, 217, 240, 232, 234, 152, 49, 169, 39, 89, 251, 75]
   = [219, 86, 17, 78, 0, 253, 212, 193, 248, 92, 137, 43, 243, 90, 201, 168,
      146, 137, 170, 236, 177, 235, 208, 169, 108, 222, 96, 106, 116, 139, 93, 113]"
  by code_simp

lemma sha256_zero_2:
  "sha256_nodes
     [219, 86, 17, 78, 0, 253, 212, 193, 248, 92, 137, 43, 243, 90, 201, 168,
      146, 137, 170, 236, 177, 235, 208, 169, 108, 222, 96, 106, 116, 139, 93, 113]
     [219, 86, 17, 78, 0, 253, 212, 193, 248, 92, 137, 43, 243, 90, 201, 168,
      146, 137, 170, 236, 177, 235, 208, 169, 108, 222, 96, 106, 116, 139, 93, 113]
   = [199, 128, 9, 253, 240, 127, 197, 106, 17, 241, 34, 55, 6, 88, 163, 83,
      170, 165, 66, 237, 99, 228, 76, 75, 193, 95, 244, 205, 16, 90, 179, 60]"
  by code_simp

lemma sha256_zero_3:
  "sha256_nodes
     [199, 128, 9, 253, 240, 127, 197, 106, 17, 241, 34, 55, 6, 88, 163, 83,
      170, 165, 66, 237, 99, 228, 76, 75, 193, 95, 244, 205, 16, 90, 179, 60]
     [199, 128, 9, 253, 240, 127, 197, 106, 17, 241, 34, 55, 6, 88, 163, 83,
      170, 165, 66, 237, 99, 228, 76, 75, 193, 95, 244, 205, 16, 90, 179, 60]
   = [83, 109, 152, 131, 127, 45, 209, 101, 165, 93, 94, 234, 233, 20, 133, 149,
      68, 114, 213, 111, 36, 109, 242, 86, 191, 60, 174, 25, 53, 42, 18, 60]"
  by code_simp

lemma sha256_zero_4:
  "sha256_nodes
     [83, 109, 152, 131, 127, 45, 209, 101, 165, 93, 94, 234, 233, 20, 133, 149,
      68, 114, 213, 111, 36, 109, 242, 86, 191, 60, 174, 25, 53, 42, 18, 60]
     [83, 109, 152, 131, 127, 45, 209, 101, 165, 93, 94, 234, 233, 20, 133, 149,
      68, 114, 213, 111, 36, 109, 242, 86, 191, 60, 174, 25, 53, 42, 18, 60]
   = [158, 253, 224, 82, 170, 21, 66, 159, 174, 5, 186, 212, 208, 177, 215, 198,
      77, 166, 77, 3, 215, 161, 133, 74, 88, 140, 44, 184, 67, 12, 13, 48]"
  by code_simp

lemma sha256_zero_5:
  "sha256_nodes
     [158, 253, 224, 82, 170, 21, 66, 159, 174, 5, 186, 212, 208, 177, 215, 198,
      77, 166, 77, 3, 215, 161, 133, 74, 88, 140, 44, 184, 67, 12, 13, 48]
     [158, 253, 224, 82, 170, 21, 66, 159, 174, 5, 186, 212, 208, 177, 215, 198,
      77, 166, 77, 3, 215, 161, 133, 74, 88, 140, 44, 184, 67, 12, 13, 48]
   = [216, 141, 223, 238, 212, 0, 168, 117, 85, 150, 178, 25, 66, 193, 73, 126,
      17, 76, 48, 46, 97, 24, 41, 15, 145, 230, 119, 41, 118, 4, 31, 161]"
  by code_simp

lemma sha256_zero_6:
  "sha256_nodes
     [216, 141, 223, 238, 212, 0, 168, 117, 85, 150, 178, 25, 66, 193, 73, 126,
      17, 76, 48, 46, 97, 24, 41, 15, 145, 230, 119, 41, 118, 4, 31, 161]
     [216, 141, 223, 238, 212, 0, 168, 117, 85, 150, 178, 25, 66, 193, 73, 126,
      17, 76, 48, 46, 97, 24, 41, 15, 145, 230, 119, 41, 118, 4, 31, 161]
   = [135, 235, 13, 219, 165, 126, 53, 246, 210, 134, 103, 56, 2, 164, 175, 89,
      117, 226, 37, 6, 199, 207, 76, 100, 187, 107, 229, 238, 17, 82, 127, 44]"
  by code_simp

lemma sha256_zero_7:
  "sha256_nodes
     [135, 235, 13, 219, 165, 126, 53, 246, 210, 134, 103, 56, 2, 164, 175, 89,
      117, 226, 37, 6, 199, 207, 76, 100, 187, 107, 229, 238, 17, 82, 127, 44]
     [135, 235, 13, 219, 165, 126, 53, 246, 210, 134, 103, 56, 2, 164, 175, 89,
      117, 226, 37, 6, 199, 207, 76, 100, 187, 107, 229, 238, 17, 82, 127, 44]
   = [38, 132, 100, 118, 253, 95, 197, 74, 93, 67, 56, 81, 103, 201, 81, 68,
      242, 100, 63, 83, 60, 200, 91, 185, 209, 107, 120, 47, 141, 125, 177, 147]"
  by code_simp

lemma sha256_zero_8:
  "sha256_nodes
     [38, 132, 100, 118, 253, 95, 197, 74, 93, 67, 56, 81, 103, 201, 81, 68,
      242, 100, 63, 83, 60, 200, 91, 185, 209, 107, 120, 47, 141, 125, 177, 147]
     [38, 132, 100, 118, 253, 95, 197, 74, 93, 67, 56, 81, 103, 201, 81, 68,
      242, 100, 63, 83, 60, 200, 91, 185, 209, 107, 120, 47, 141, 125, 177, 147]
   = [80, 109, 134, 88, 45, 37, 36, 5, 184, 64, 1, 135, 146, 202, 210, 191,
      18, 89, 241, 239, 90, 165, 248, 135, 225, 60, 178, 240, 9, 79, 81, 225]"
  by code_simp

lemma sha256_zero_9:
  "sha256_nodes
     [80, 109, 134, 88, 45, 37, 36, 5, 184, 64, 1, 135, 146, 202, 210, 191,
      18, 89, 241, 239, 90, 165, 248, 135, 225, 60, 178, 240, 9, 79, 81, 225]
     [80, 109, 134, 88, 45, 37, 36, 5, 184, 64, 1, 135, 146, 202, 210, 191,
      18, 89, 241, 239, 90, 165, 248, 135, 225, 60, 178, 240, 9, 79, 81, 225]
   = [255, 255, 10, 215, 230, 89, 119, 47, 149, 52, 193, 149, 200, 21, 239, 196,
      1, 78, 241, 225, 218, 237, 68, 4, 192, 99, 133, 209, 17, 146, 233, 43]"
  by code_simp

lemma sha256_mix_4:
  "sha256_nodes
     [83, 109, 152, 131, 127, 45, 209, 101, 165, 93, 94, 234, 233, 20, 133, 149,
      68, 114, 213, 111, 36, 109, 242, 86, 191, 60, 174, 25, 53, 42, 18, 60]
     [0, 0, 0, 0, 0, 0, 0, 0, 0, 0, 0, 0, 0, 0, 0, 0,
      0, 0, 0, 0, 0, 0, 0, 0, 0, 0, 0, 0, 0, 0, 0, 0]
   = [121, 41, 48, 187, 213, 186, 172, 67, 188, 199, 152, 238, 73, 170, 129, 133,
      239, 118, 187, 59, 68, 186, 98, 185, 29, 134, 174, 86, 158, 75, 181, 53]"
  by code_simp

lemma sha256_mix_10:
  "sha256_nodes
     [255, 255, 10, 215, 230, 89, 119, 47, 149, 52, 193, 149, 200, 21, 239, 196,
      1, 78, 241, 225, 218, 237, 68, 4, 192, 99, 133, 209, 17, 146, 233, 43]
     [0, 0, 0, 0, 0, 0, 0, 0, 0, 0, 0, 0, 0, 0, 0, 0,
      0, 0, 0, 0, 0, 0, 0, 0, 0, 0, 0, 0, 0, 0, 0, 0]
   = [206, 179, 38, 107, 240, 147, 139, 199, 47, 130, 86, 53, 109, 220, 19, 188,
      204, 32, 221, 118, 127, 37, 68, 139, 38, 88, 19, 87, 128, 183, 218, 81]"
  by code_simp

lemma zero_chunk_eval:
  "zero_chunk = [0, 0, 0, 0, 0, 0, 0, 0, 0, 0, 0, 0, 0, 0, 0, 0,
      0, 0, 0, 0, 0, 0, 0, 0, 0, 0, 0, 0, 0, 0, 0, 0]"
  by (simp add: zero_chunk_def eval_nat_numeral)

lemma simple_value_root:
  "hash_tree_root sha256_nodes simple_value =
     Inr [245, 165, 253, 66, 209, 106, 32, 48, 39, 152, 239, 110, 211, 9, 151, 155,
          67, 0, 61, 35, 32, 217, 240, 232, 234, 152, 49, 169, 39, 89, 251, 75]"
  by (simp add: simple_value_root_generic zero_chunk_eval sha256_zero_0)

lemma zero_hash_sha256_4:
  "zero_hash sha256_nodes 4 = [83, 109, 152, 131, 127, 45, 209, 101, 165, 93, 94, 234, 233, 20, 133, 149,
      68, 114, 213, 111, 36, 109, 242, 86, 191, 60, 174, 25, 53, 42, 18, 60]"
  by (simp add: eval_nat_numeral zero_chunk_eval sha256_zero_0 sha256_zero_1 sha256_zero_2
      sha256_zero_3)

lemma zero_hash_sha256_10:
  "zero_hash sha256_nodes 10 = [255, 255, 10, 215, 230, 89, 119, 47, 149, 52, 193, 149, 200, 21, 239, 196,
      1, 78, 241, 225, 218, 237, 68, 4, 192, 99, 133, 209, 17, 146, 233, 43]"
proof -
  have "(10::nat) = Suc (Suc (Suc (Suc (Suc (Suc 4)))))"
    by simp
  then show ?thesis
    by (simp only: zero_hash.simps zero_hash_sha256_4 sha256_zero_4 sha256_zero_5
        sha256_zero_6 sha256_zero_7 sha256_zero_8 sha256_zero_9)
qed

lemma length_mixin_zero:
  "serialize_uint64_le 0 @ replicate 24 0 = [0, 0, 0, 0, 0, 0, 0, 0, 0, 0, 0, 0, 0, 0, 0, 0,
      0, 0, 0, 0, 0, 0, 0, 0, 0, 0, 0, 0, 0, 0, 0, 0]"
  by (simp add: serialize_uint64_le_def eval_nat_numeral)

lemma empty_bitlist_4096:
  "hash_tree_root sha256_nodes (BitlistV name 4096 []) =
     Inr [121, 41, 48, 187, 213, 186, 172, 67, 188, 199, 152, 238, 73, 170, 129, 133,
      239, 118, 187, 59, 68, 186, 98, 185, 29, 134, 174, 86, 158, 75, 181, 53]"
  using empty_bitlist_root [of 4096 sha256_nodes name]
  by (simp add: bitlist_chunk_limit_def ceil_log2_16 zero_hash_sha256_4 length_mixin_zero
      sha256_mix_4)

lemma empty_bitlist_262144:
  "hash_tree_root sha256_nodes (BitlistV name 262144 []) =
     Inr [206, 179, 38, 107, 240, 147, 139, 199, 47, 130, 86, 53, 109, 220, 19, 188,
      204, 32, 221, 118, 127, 37, 68, 139, 38, 88, 19, 87, 128, 183, 218, 81]"
  using empty_bitlist_root [of 262144 sha256_nodes name]
  by (simp add: bitlist_chunk_limit_def ceil_log2_1024 zero_hash_sha256_10 length_mixin_zero
      sha256_mix_10)

lemma empty_list_root_depth:
  "0 \<le> limit \<Longrightarrow> hash_tree_root h (ListV name T limit []) =
     Inr (h (zero_hash h (ceil_log2 (chunk_limit T limit)))
            (serialize_uint64_le 0 @ replicate 24 0))"
  by (simp add: bind_err_def merkleize_empty mix_in_length_def pack.simps)

lemma empty_bitlist_4095:
  "hash_tree_root sha256_nodes (BitlistV name 4095 []) =
     Inr [121, 41, 48, 187, 213, 186, 172, 67, 188, 199, 152, 238, 73, 170, 129, 133,
      239, 118, 187, 59, 68, 186, 98, 185, 29, 134, 174, 86, 158, 75, 181, 53]"
  using empty_bitlist_root [of 4095 sha256_nodes name]
  by (simp add: bitlist_chunk_limit_def ceil_log2_16 zero_hash_sha256_4 length_mixin_zero
      sha256_mix_4)

lemma empty_roots_list_16:
  "hash_tree_root sha256_nodes (ListV name Bytes32 16 []) =
     Inr [121, 41, 48, 187, 213, 186, 172, 67, 188, 199, 152, 238, 73, 170, 129, 133,
      239, 118, 187, 59, 68, 186, 98, 185, 29, 134, 174, 86, 158, 75, 181, 53]"
  using empty_list_root_depth [of 16 sha256_nodes name Bytes32]
  by (simp add: chunk_limit_def ceil_log2_16 zero_hash_sha256_4 length_mixin_zero
      sha256_mix_4)

section \<open>The scripts and the engine they call\<close>

text \<open>
  C1. \<open>main\<close> of the validation script returns \<open>True\<close> exactly when the lowercase hex
  rendering of the hash tree root of the state built by \<open>create_beam_state\<close> equals the
  literal comparison string, and \<open>False\<close> otherwise. This holds for whatever the imported
  \<open>hash_tree_root\<close> returns on that state (an error it raises passes through
  \<open>main\<close>), and the engine of the library, over any hashing primitive, does return a
  digest there.
\<close>

theorem main_returns_comparison:
  "create_beam_state = Inr beam_state_value
   \<and> main htr = (case htr beam_state_value of
                    Inl e \<Rightarrow> Inl e
                  | Inr d \<Rightarrow> if hex d = zig_hash then Inr True else Inr False)
   \<and> (\<exists>d. hash_tree_root h beam_state_value = Inr d
          \<and> (main (hash_tree_root h) = Inr True \<longleftrightarrow> hex d = zig_hash)
          \<and> (main (hash_tree_root h) = Inr False \<longleftrightarrow> hex d \<noteq> zig_hash))"
proof -
  have general: "main f = (case f beam_state_value of
                    Inl e \<Rightarrow> Inl e
                  | Inr d \<Rightarrow> if hex d = zig_hash then Inr True else Inr False)" for f
    by (simp add: main_def create_beam_state_eval bind_err_def)
  obtain d where d: "hash_tree_root h beam_state_value = Inr d"
    using hash_tree_root_total [OF valid_beam_state_value, of h] by blast
  have "(main (hash_tree_root h) = Inr True \<longleftrightarrow> hex d = zig_hash)
          \<and> (main (hash_tree_root h) = Inr False \<longleftrightarrow> hex d \<noteq> zig_hash)"
    by (simp add: general [of "hash_tree_root h"] d)
  then show ?thesis
    using general [of htr] d create_beam_state_eval by blast
qed

text \<open>
  C2, as stated: the literal comparison digest is 66 hex characters (33 bytes) with a
  leading \<open>01\<close>. The literal of the script has neither property.
\<close>

theorem zig_hash_not_66_chars:
  "length zig_hash \<noteq> 66 \<and> take 2 zig_hash \<noteq> ''01''"
  by (simp add: zig_hash_def)

text \<open>
  C2, amended: the literal comparison digest is 64 lowercase hex characters, the rendering
  of 32 bytes; it begins with \<open>93\<close> and its last two characters are \<open>01\<close>.
\<close>

theorem zig_hash_is_64_chars:
  "length zig_hash = 2 * 32 \<and> take 2 zig_hash = ''93'' \<and> drop 62 zig_hash = ''01''
   \<and> list_all (\<lambda>c. c \<in> set ''0123456789abcdef'') zig_hash"
  by (simp add: zig_hash_def)

text \<open>
  C3. The hash tree root of an empty list of any element type \<open>T\<close> and capacity
  \<open>LIMIT > 0\<close> is \<open>hash(Z[depth], serialize_uint64_le(0))\<close> with
  \<open>depth = ceil(log2(LIMIT / elements_per_chunk))\<close>: the content root is the zero hash
  of that depth, and the length 0, eight zero bytes padded to a chunk, is the right
  sibling. A depth is a natural number: where the capacity is below one chunk the
  logarithm is negative and the depth is 0.
\<close>

theorem empty_list_root:
  assumes "0 < limit"
  shows "hash_tree_root h (ListV name T limit []) =
           Inr (h (zero_hash h (nat \<lceil>log 2 (real_of_int limit / real (elements_per_chunk T))\<rceil>))
                  (serialize_uint64_le 0 @ replicate 24 0))
         \<and> serialize_uint64_le 0 = replicate 8 0
         \<and> length (serialize_uint64_le 0 @ replicate 24 0) = 32"
  using assms depth_of_limit [OF assms, of T]
  by (simp add: bind_err_def merkleize_empty mix_in_length_def pack.simps
      serialize_uint64_le_def eval_nat_numeral)

text \<open>
  The empty \<open>HistoricalBlockHashesList\<close> of \<open>create_beam_state\<close>, capacity 262144 and
  one element per chunk, has depth 18.
\<close>

theorem empty_list_root_witness:
  "(0::int) < 262144
   \<and> new HistoricalBlockHashesList (Data [])
       = Inr (ListV ''HistoricalBlockHashesList'' Bytes32 262144 [])
   \<and> nat \<lceil>log 2 (real_of_int 262144 / real (elements_per_chunk Bytes32))\<rceil> = 18
   \<and> hash_tree_root sha256_nodes (ListV ''HistoricalBlockHashesList'' Bytes32 262144 []) =
       Inr (sha256_nodes
              (zero_hash sha256_nodes
                 (nat \<lceil>log 2 (real_of_int 262144 / real (elements_per_chunk Bytes32))\<rceil>))
              (serialize_uint64_le 0 @ replicate 24 0))"
proof -
  have pos: "(0::int) < 262144" by simp
  have "ceil_log2 (chunk_limit Bytes32 262144) = 18"
    by (simp add: chunk_limit_def ceil_log2_262144)
  then have depth: "nat \<lceil>log 2 (real_of_int 262144 / real (elements_per_chunk Bytes32))\<rceil> = 18"
    using depth_of_limit [OF pos, of Bytes32] by simp
  have made: "new HistoricalBlockHashesList (Data [])
       = Inr (ListV ''HistoricalBlockHashesList'' Bytes32 262144 [])"
    by (simp add: HistoricalBlockHashesList_def limits_eval)
  from pos made depth
    empty_list_root [OF pos, of sha256_nodes "''HistoricalBlockHashesList''" Bytes32]
  show ?thesis
    by (intro conjI) simp_all
qed

text \<open>
  C4, as stated: any two structurally distinct empty-collection types with different
  \<open>LIMIT\<close>s have different hash tree roots. They do not: a bitlist class of capacity
  4095 and \<open>JustificationsValidatorsBitlist\<close> of capacity 4096 both span 16 chunks,
  depth 4, and so does a list class of 16 roots; empty, the three have one and the same
  root under SHA-256.
\<close>

theorem equal_depth_empty_roots_coincide:
  "(4095::int) \<noteq> 4096
   \<and> BaseBitlist ''Bitlist4095'' 4095 \<noteq> JustificationsValidatorsBitlist
   \<and> LIMIT (BaseBitlist ''Bitlist4095'' 4095) = Some 4095
   \<and> LIMIT JustificationsValidatorsBitlist = Some 4096
   \<and> SSZList ''RootsList16'' Bytes32 16 \<noteq> JustificationsValidatorsBitlist
   \<and> LIMIT (SSZList ''RootsList16'' Bytes32 16) = Some 16
   \<and> bind_err (new (BaseBitlist ''Bitlist4095'' 4095) (Bits [])) (hash_tree_root sha256_nodes)
       = Inr [121, 41, 48, 187, 213, 186, 172, 67, 188, 199, 152, 238, 73, 170, 129, 133,
            239, 118, 187, 59, 68, 186, 98, 185, 29, 134, 174, 86, 158, 75, 181, 53]
   \<and> bind_err (new JustificationsValidatorsBitlist (Bits [])) (hash_tree_root sha256_nodes)
       = Inr [121, 41, 48, 187, 213, 186, 172, 67, 188, 199, 152, 238, 73, 170, 129, 133,
            239, 118, 187, 59, 68, 186, 98, 185, 29, 134, 174, 86, 158, 75, 181, 53]
   \<and> bind_err (new (SSZList ''RootsList16'' Bytes32 16) (Data [])) (hash_tree_root sha256_nodes)
       = Inr [121, 41, 48, 187, 213, 186, 172, 67, 188, 199, 152, 238, 73, 170, 129, 133,
            239, 118, 187, 59, 68, 186, 98, 185, 29, 134, 174, 86, 158, 75, 181, 53]"
proof -
  have types: "(4095::int) \<noteq> 4096
   \<and> BaseBitlist ''Bitlist4095'' 4095 \<noteq> JustificationsValidatorsBitlist
   \<and> LIMIT (BaseBitlist ''Bitlist4095'' 4095) = Some 4095
   \<and> LIMIT JustificationsValidatorsBitlist = Some 4096
   \<and> SSZList ''RootsList16'' Bytes32 16 \<noteq> JustificationsValidatorsBitlist
   \<and> LIMIT (SSZList ''RootsList16'' Bytes32 16) = Some 16"
    by (simp add: JustificationsValidatorsBitlist_def limits_eval)
  have n1: "new (BaseBitlist ''Bitlist4095'' 4095) (Bits [])
        = Inr (BitlistV ''Bitlist4095'' 4095 [])"
    by simp
  have n2: "new JustificationsValidatorsBitlist (Bits [])
        = Inr (BitlistV ''JustificationsValidatorsBitlist'' 4096 [])"
    by (simp add: JustificationsValidatorsBitlist_def limits_eval)
  have n3: "new (SSZList ''RootsList16'' Bytes32 16) (Data [])
        = Inr (ListV ''RootsList16'' Bytes32 16 [])"
    by simp
  have r1: "bind_err (new (BaseBitlist ''Bitlist4095'' 4095) (Bits []))
              (hash_tree_root sha256_nodes)
       = Inr [121, 41, 48, 187, 213, 186, 172, 67, 188, 199, 152, 238, 73, 170, 129, 133,
            239, 118, 187, 59, 68, 186, 98, 185, 29, 134, 174, 86, 158, 75, 181, 53]"
    by (simp only: n1 bind_err_def sum.case empty_bitlist_4095)
  have r2: "bind_err (new JustificationsValidatorsBitlist (Bits [])) (hash_tree_root sha256_nodes)
       = Inr [121, 41, 48, 187, 213, 186, 172, 67, 188, 199, 152, 238, 73, 170, 129, 133,
            239, 118, 187, 59, 68, 186, 98, 185, 29, 134, 174, 86, 158, 75, 181, 53]"
    by (simp only: n2 bind_err_def sum.case empty_bitlist_4096)
  have r3: "bind_err (new (SSZList ''RootsList16'' Bytes32 16) (Data []))
              (hash_tree_root sha256_nodes)
       = Inr [121, 41, 48, 187, 213, 186, 172, 67, 188, 199, 152, 238, 73, 170, 129, 133,
            239, 118, 187, 59, 68, 186, 98, 185, 29, 134, 174, 86, 158, 75, 181, 53]"
    by (simp only: n3 bind_err_def sum.case empty_roots_list_16)
  from types r1 r2 r3 show ?thesis
    by (intro conjI) simp_all
qed

text \<open>
  C4, amended: the \<open>LIMIT\<close> of an empty collection enters its hash tree root only
  through the depth of its capacity in chunks: the root is the zero hash of that depth
  with the length 0 mixed in. The empty \<open>JustificationsValidatorsBitlist\<close> (capacity
  4096, 16 chunks, depth 4) and the empty \<open>JustifiedSlotsBitlist\<close> (capacity 262144,
  1024 chunks, depth 10) have different depths, under SHA-256 the zero hashes of depth 4
  and 10 differ, and so do the two roots, although both hold no bit.
\<close>

theorem empty_bitlists_differ:
  "hash_tree_root h (BitlistV name (int n) [])
     = Inr (h (zero_hash h (ceil_log2 (bitlist_chunk_limit (int n)))) zero_chunk)
   \<and> hash_tree_root h (ListV name T (int n) [])
     = Inr (h (zero_hash h (ceil_log2 (chunk_limit T (int n)))) zero_chunk)
   \<and> hash_tree_root h (BitlistV ''JustificationsValidatorsBitlist'' 4096 [])
     = Inr (h (zero_hash h 4) zero_chunk)
   \<and> hash_tree_root h (BitlistV ''JustifiedSlotsBitlist'' 262144 [])
     = Inr (h (zero_hash h 10) zero_chunk)
   \<and> zero_hash sha256_nodes 4 \<noteq> zero_hash sha256_nodes 10
   \<and> (\<exists>d1 d2.
         bind_err (new JustificationsValidatorsBitlist (Bits [])) (hash_tree_root sha256_nodes)
           = Inr d1
         \<and> bind_err (new JustifiedSlotsBitlist (Bits [])) (hash_tree_root sha256_nodes) = Inr d2
         \<and> d1 \<noteq> d2)"
proof -
  have mixin: "serialize_uint64_le 0 @ replicate 24 0 = zero_chunk"
    by (simp add: length_mixin_zero zero_chunk_eval)
  have g1: "hash_tree_root h (BitlistV name (int n) [])
     = Inr (h (zero_hash h (ceil_log2 (bitlist_chunk_limit (int n)))) zero_chunk)"
    using empty_bitlist_root [of "int n" h name] by (simp add: mixin)
  have g2: "hash_tree_root h (ListV name T (int n) [])
     = Inr (h (zero_hash h (ceil_log2 (chunk_limit T (int n)))) zero_chunk)"
    using empty_list_root_depth [of "int n" h name T] by (simp add: mixin)
  have r1: "hash_tree_root h (BitlistV ''JustificationsValidatorsBitlist'' 4096 [])
     = Inr (h (zero_hash h 4) zero_chunk)"
    using empty_bitlist_root [of 4096 h "''JustificationsValidatorsBitlist''"]
    by (simp add: bitlist_chunk_limit_def ceil_log2_16 mixin)
  have r2: "hash_tree_root h (BitlistV ''JustifiedSlotsBitlist'' 262144 [])
     = Inr (h (zero_hash h 10) zero_chunk)"
    using empty_bitlist_root [of 262144 h "''JustifiedSlotsBitlist''"]
    by (simp add: bitlist_chunk_limit_def ceil_log2_1024 mixin)
  have z: "zero_hash sha256_nodes 4 \<noteq> zero_hash sha256_nodes 10"
    by (simp add: zero_hash_sha256_4 zero_hash_sha256_10)
  have n1: "new JustificationsValidatorsBitlist (Bits [])
        = Inr (BitlistV ''JustificationsValidatorsBitlist'' 4096 [])"
    by (simp add: JustificationsValidatorsBitlist_def limits_eval)
  have n2: "new JustifiedSlotsBitlist (Bits [])
        = Inr (BitlistV ''JustifiedSlotsBitlist'' 262144 [])"
    by (simp add: JustifiedSlotsBitlist_def limits_eval)
  have "\<exists>d1 d2.
         bind_err (new JustificationsValidatorsBitlist (Bits [])) (hash_tree_root sha256_nodes)
           = Inr d1
         \<and> bind_err (new JustifiedSlotsBitlist (Bits [])) (hash_tree_root sha256_nodes) = Inr d2
         \<and> d1 \<noteq> d2"
    using n1 n2
    by (simp only: bind_err_def sum.case empty_bitlist_4096 empty_bitlist_262144) simp
  with g1 g2 r1 r2 z show ?thesis
    by (intro conjI)
qed

text \<open>
  C5. The capacity constants are \<open>1 << 12 = 4096\<close> and \<open>1 << 18 = 262144\<close>; the first
  is the \<open>LIMIT\<close> of \<open>JustificationsValidatorsBitlist\<close>, the second the \<open>LIMIT\<close> of
  \<open>JustifiedSlotsBitlist\<close>, \<open>HistoricalBlockHashesList\<close> and
  \<open>JustificationsRootsList\<close>, and the collections of the state that
  \<open>create_beam_state\<close> builds are instances of exactly these classes.
\<close>

theorem capacity_constants:
  "VALIDATOR_REGISTRY_LIMIT = push_bit 12 1 \<and> VALIDATOR_REGISTRY_LIMIT = 4096
   \<and> LIMIT JustificationsValidatorsBitlist = Some VALIDATOR_REGISTRY_LIMIT
   \<and> HISTORICAL_ROOTS_LIMIT = push_bit 18 1 \<and> HISTORICAL_ROOTS_LIMIT = 262144
   \<and> LIMIT JustifiedSlotsBitlist = Some HISTORICAL_ROOTS_LIMIT
   \<and> LIMIT HistoricalBlockHashesList = Some HISTORICAL_ROOTS_LIMIT
   \<and> LIMIT JustificationsRootsList = Some HISTORICAL_ROOTS_LIMIT
   \<and> map_option type_of (getattr beam_state_value ''justifications_validators'')
       = Some JustificationsValidatorsBitlist
   \<and> map_option type_of (getattr beam_state_value ''justified_slots'')
       = Some JustifiedSlotsBitlist
   \<and> map_option type_of (getattr beam_state_value ''historical_block_hashes'')
       = Some HistoricalBlockHashesList
   \<and> map_option type_of (getattr beam_state_value ''justifications_roots'')
       = Some JustificationsRootsList"
  by (simp add: class_defs limits_eval beam_state_value_def)

text \<open>
  C6. \<open>hash_tree_root\<close> is deterministic over repeated calls. A process holds the
  zero-hash table, and every call may extend it; still, a call on a validated instance
  and a second call on a structurally equal one, made on the table the first call left
  behind, return the same digest of 32 bytes, and so does a call made at any other
  moment of the process. The digest is the root of the instance alone. Fixed-size
  composites such as \<open>SimpleTest\<close> are a special case.
\<close>

theorem hash_tree_root_deterministic:
  assumes "\<forall>a b. length (h a b) = 32" and "valid c1" and "c1 = c2" and "table_ok h t"
  shows "\<exists>d t1 t2. hash_tree_root_st h c1 t = (Inr d, t1)
           \<and> hash_tree_root_st h c2 t1 = (Inr d, t2)
           \<and> table_ok h t1 \<and> table_ok h t2
           \<and> length d = 32 \<and> hash_tree_root h c1 = Inr d
           \<and> (\<forall>t'. table_ok h t' \<longrightarrow> fst (hash_tree_root_st h c2 t') = Inr d)"
proof -
  obtain d where d: "hash_tree_root h c1 = Inr d" "length d = 32"
    using hash_tree_root_total [OF assms(2), of h] assms(1) by auto
  obtain t1 where t1: "hash_tree_root_st h c1 t = (Inr d, t1)" "table_ok h t1"
    using hash_tree_root_st_ok(1) [OF assms(4), of c1] d(1) by auto
  obtain t2 where t2: "hash_tree_root_st h c2 t1 = (Inr d, t2)" "table_ok h t2"
    using hash_tree_root_st_ok(1) [OF t1(2), of c2] d(1) assms(3) by auto
  have "\<forall>t'. table_ok h t' \<longrightarrow> fst (hash_tree_root_st h c2 t') = Inr d"
  proof (intro allI impI)
    fix t' assume "table_ok h t'"
    then obtain t'' where "hash_tree_root_st h c2 t' = (hash_tree_root h c2, t'')"
      using hash_tree_root_st_ok(1) [of h t' c2] by blast
    then show "fst (hash_tree_root_st h c2 t') = Inr d"
      using d(1) assms(3) by simp
  qed
  with d t1 t2 show ?thesis by blast
qed

text \<open>
  The instance \<open>SimpleTest(slot=Uint64(0), proposer_index=Uint32(0))\<close> under SHA-256,
  hashed twice from the empty table of a fresh process: the first call leaves the table
  with one entry, the second runs on that table, and both return the same digest.
\<close>

theorem hash_tree_root_deterministic_witness:
  "(\<forall>a b. length (sha256_nodes a b) = 32) \<and> valid simple_value
   \<and> simple_instance = Inr simple_value
   \<and> is_fixed_size (type_of simple_value)
   \<and> table_ok sha256_nodes []
   \<and> hash_tree_root_st sha256_nodes simple_value [] =
       (Inr [245, 165, 253, 66, 209, 106, 32, 48, 39, 152, 239, 110, 211, 9, 151, 155,
             67, 0, 61, 35, 32, 217, 240, 232, 234, 152, 49, 169, 39, 89, 251, 75], [zero_chunk])
   \<and> hash_tree_root_st sha256_nodes simple_value [zero_chunk] =
       (Inr [245, 165, 253, 66, 209, 106, 32, 48, 39, 152, 239, 110, 211, 9, 151, 155,
             67, 0, 61, 35, 32, 217, 240, 232, 234, 152, 49, 169, 39, 89, 251, 75], [zero_chunk])
   \<and> [zero_chunk] \<noteq> []"
proof -
  have h: "\<forall>a b. length (sha256_nodes a b) = 32"
    by (simp add: sha256_nodes_length)
  have ok: "table_ok sha256_nodes []"
    by (rule table_ok_Nil)
  obtain d t1 t2 where r:
    "hash_tree_root_st sha256_nodes simple_value [] = (Inr d, t1)"
    "hash_tree_root_st sha256_nodes simple_value t1 = (Inr d, t2)"
    "hash_tree_root sha256_nodes simple_value = Inr d"
    using hash_tree_root_deterministic [OF h valid_simple_value refl ok] by blast
  have d: "d = [245, 165, 253, 66, 209, 106, 32, 48, 39, 152, 239, 110, 211, 9, 151, 155,
             67, 0, 61, 35, 32, 217, 240, 232, 234, 152, 49, 169, 39, 89, 251, 75]"
    using r(3) simple_value_root by simp
  have t1: "t1 = [zero_chunk]"
    using r(1) simple_value_first_call [of sha256_nodes] by simp
  have t2: "t2 = [zero_chunk]"
    using r(2) t1 simple_value_second_call [of sha256_nodes] by simp
  have c1: "hash_tree_root_st sha256_nodes simple_value [] =
       (Inr [245, 165, 253, 66, 209, 106, 32, 48, 39, 152, 239, 110, 211, 9, 151, 155,
             67, 0, 61, 35, 32, 217, 240, 232, 234, 152, 49, 169, 39, 89, 251, 75], [zero_chunk])"
    using r(1) d t1 by simp
  have c2: "hash_tree_root_st sha256_nodes simple_value [zero_chunk] =
       (Inr [245, 165, 253, 66, 209, 106, 32, 48, 39, 152, 239, 110, 211, 9, 151, 155,
             67, 0, 61, 35, 32, 217, 240, 232, 234, 152, 49, 169, 39, 89, 251, 75], [zero_chunk])"
    using r(2) d t1 t2 by simp
  have fixed: "is_fixed_size (type_of simple_value)"
    by (simp add: simple_value_def SimpleTest_def)
  have grown: "[zero_chunk] \<noteq> []"
    by simp
  from h valid_simple_value simple_instance_eval fixed ok c1 c2 grown show ?thesis
    by (intro conjI)
qed

text \<open>
  C7. \<open>hash_tree_root\<close> is total over validated instances, those that construction
  returns among them, and every call the two scripts make (on \<open>SimpleTest\<close>,
  \<open>ConfigTest\<close>, \<open>BlockHeaderTest\<close>, \<open>CheckpointTest\<close> and the full
  \<open>BeamState\<close>) returns a digest of 32 bytes without an error, whenever the hashing
  primitive returns 32 bytes.
\<close>

theorem scripts_never_fail:
  assumes "\<forall>a b. length (h a b) = 32"
  shows "(\<forall>v. valid v \<longrightarrow> (\<exists>d. hash_tree_root h v = Inr d \<and> length d = 32))
    \<and> (\<forall>T a v. new T a = Inr v \<and> arg_valid a
           \<longrightarrow> (\<exists>d. hash_tree_root h v = Inr d \<and> length d = 32))
    \<and> (\<exists>v d. simple_instance = Inr v \<and> hash_tree_root h v = Inr d \<and> length d = 32
           \<and> test_simple_container (hash_tree_root h) = Inr (hex d))
    \<and> (\<exists>v d. config_instance = Inr v \<and> hash_tree_root h v = Inr d \<and> length d = 32
           \<and> test_config (hash_tree_root h) = Inr (hex d))
    \<and> (\<exists>v d. header_instance = Inr v \<and> hash_tree_root h v = Inr d \<and> length d = 32
           \<and> test_block_header (hash_tree_root h) = Inr (hex d))
    \<and> (\<exists>v d. checkpoint_instance = Inr v \<and> hash_tree_root h v = Inr d \<and> length d = 32
           \<and> test_checkpoint (hash_tree_root h) = Inr (hex d))
    \<and> debug_simple_hash_main (hash_tree_root h) = Inr ()
    \<and> (\<exists>v d. create_beam_state = Inr v \<and> hash_tree_root h v = Inr d \<and> length d = 32
           \<and> main (hash_tree_root h) = Inr (hex d = zig_hash))"
proof -
  obtain d1 where d1: "hash_tree_root h simple_value = Inr d1" "length d1 = 32"
    using digest_of_valid [OF assms valid_simple_value] by blast
  obtain d2 where d2: "hash_tree_root h config_test_value = Inr d2" "length d2 = 32"
    using digest_of_valid [OF assms valid_debug_values(1)] by blast
  obtain d3 where d3: "hash_tree_root h header_test_value = Inr d3" "length d3 = 32"
    using digest_of_valid [OF assms valid_debug_values(2)] by blast
  obtain d4 where d4: "hash_tree_root h checkpoint_test_value = Inr d4" "length d4 = 32"
    using digest_of_valid [OF assms valid_debug_values(3)] by blast
  obtain d5 where d5: "hash_tree_root h beam_state_value = Inr d5" "length d5 = 32"
    using digest_of_valid [OF assms valid_beam_state_value] by blast
  have t1: "test_simple_container (hash_tree_root h) = Inr (hex d1)"
    by (simp add: test_simple_container_def simple_instance_eval d1 bind_err_def)
  have t2: "test_config (hash_tree_root h) = Inr (hex d2)"
    by (simp add: test_config_def debug_instances_eval d2 bind_err_def)
  have t3: "test_block_header (hash_tree_root h) = Inr (hex d3)"
    by (simp add: test_block_header_def debug_instances_eval d3 bind_err_def)
  have t4: "test_checkpoint (hash_tree_root h) = Inr (hex d4)"
    by (simp add: test_checkpoint_def debug_instances_eval d4 bind_err_def)
  have t5: "main (hash_tree_root h) = Inr (hex d5 = zig_hash)"
    by (simp add: main_def create_beam_state_eval d5 bind_err_def)
  have m: "debug_simple_hash_main (hash_tree_root h) = Inr ()"
    by (simp add: debug_simple_hash_main_def t1 t2 t3 t4 bind_err_def)
  have general: "\<forall>v. valid v \<longrightarrow> (\<exists>d. hash_tree_root h v = Inr d \<and> length d = 32)"
    using digest_of_valid [OF assms] by blast
  have c1: "\<exists>v d. simple_instance = Inr v \<and> hash_tree_root h v = Inr d \<and> length d = 32
           \<and> test_simple_container (hash_tree_root h) = Inr (hex d)"
    using simple_instance_eval d1 t1 by blast
  have c2: "\<exists>v d. config_instance = Inr v \<and> hash_tree_root h v = Inr d \<and> length d = 32
           \<and> test_config (hash_tree_root h) = Inr (hex d)"
    using debug_instances_eval(1) d2 t2 by blast
  have c3: "\<exists>v d. header_instance = Inr v \<and> hash_tree_root h v = Inr d \<and> length d = 32
           \<and> test_block_header (hash_tree_root h) = Inr (hex d)"
    using debug_instances_eval(2) d3 t3 by blast
  have c4: "\<exists>v d. checkpoint_instance = Inr v \<and> hash_tree_root h v = Inr d \<and> length d = 32
           \<and> test_checkpoint (hash_tree_root h) = Inr (hex d)"
    using debug_instances_eval(3) d4 t4 by blast
  have c5: "\<exists>v d. create_beam_state = Inr v \<and> hash_tree_root h v = Inr d \<and> length d = 32
           \<and> main (hash_tree_root h) = Inr (hex d = zig_hash)"
    using create_beam_state_eval d5 t5 by blast
  have constructed: "\<forall>T a v. new T a = Inr v \<and> arg_valid a
           \<longrightarrow> (\<exists>d. hash_tree_root h v = Inr d \<and> length d = 32)"
    using digest_of_valid [OF assms] new_valid by blast
  from general constructed c1 c2 c3 c4 m c5 show ?thesis
    by (intro conjI)
qed

text \<open>The calls of the two scripts under SHA-256, which returns 32 bytes.\<close>

theorem scripts_never_fail_witness:
  "(\<forall>a b. length (sha256_nodes a b) = 32)
    \<and> (\<exists>v d. simple_instance = Inr v \<and> hash_tree_root sha256_nodes v = Inr d \<and> length d = 32
           \<and> test_simple_container (hash_tree_root sha256_nodes) = Inr (hex d))
    \<and> (\<exists>v d. config_instance = Inr v \<and> hash_tree_root sha256_nodes v = Inr d \<and> length d = 32
           \<and> test_config (hash_tree_root sha256_nodes) = Inr (hex d))
    \<and> (\<exists>v d. header_instance = Inr v \<and> hash_tree_root sha256_nodes v = Inr d \<and> length d = 32
           \<and> test_block_header (hash_tree_root sha256_nodes) = Inr (hex d))
    \<and> (\<exists>v d. checkpoint_instance = Inr v \<and> hash_tree_root sha256_nodes v = Inr d
           \<and> length d = 32 \<and> test_checkpoint (hash_tree_root sha256_nodes) = Inr (hex d))
    \<and> debug_simple_hash_main (hash_tree_root sha256_nodes) = Inr ()
    \<and> (\<exists>v d. create_beam_state = Inr v \<and> hash_tree_root sha256_nodes v = Inr d \<and> length d = 32
           \<and> main (hash_tree_root sha256_nodes) = Inr (hex d = zig_hash))"
proof -
  have h: "\<forall>a b. length (sha256_nodes a b) = 32"
    by (simp add: sha256_nodes_length)
  show ?thesis
    using h scripts_never_fail [OF h] by blast
qed

text \<open>
  C8. \<open>ConfigTest\<close>, \<open>BlockHeaderTest\<close> and \<open>CheckpointTest\<close> of the debug script
  declare the same fields, with the same names, types and order, as \<open>BeamStateConfig\<close>,
  \<open>BeamBlockHeader\<close> and \<open>Mini3SFCheckpoint\<close> of the validation script; so for the
  same field values the hash tree root is the same under either class (and a
  construction that one class refuses, the other refuses with the same error). The
  instances the tests of the debug script build have the roots of the matching parts of
  the state.
\<close>

theorem debug_classes_match:
  "fields ConfigTest = fields BeamStateConfig
   \<and> fields BlockHeaderTest = fields BeamBlockHeader
   \<and> fields CheckpointTest = fields Mini3SFCheckpoint
   \<and> bind_err (new ConfigTest (Fields kw)) (hash_tree_root h)
       = bind_err (new BeamStateConfig (Fields kw)) (hash_tree_root h)
   \<and> bind_err (new BlockHeaderTest (Fields kw)) (hash_tree_root h)
       = bind_err (new BeamBlockHeader (Fields kw)) (hash_tree_root h)
   \<and> bind_err (new CheckpointTest (Fields kw)) (hash_tree_root h)
       = bind_err (new Mini3SFCheckpoint (Fields kw)) (hash_tree_root h)
   \<and> hash_tree_root h config_test_value = hash_tree_root h config_value
   \<and> hash_tree_root h header_test_value = hash_tree_root h block_header_value
   \<and> hash_tree_root h checkpoint_test_value = hash_tree_root h checkpoint_value"
  by (simp add: ConfigTest_def BlockHeaderTest_def CheckpointTest_def class_defs bind_err_def
      config_test_value_def header_test_value_def checkpoint_test_value_def
      config_value_def block_header_value_def checkpoint_value_def
      split: option.split)

text \<open>
  C9. \<open>create_beam_state\<close> assigns the one zero-valued checkpoint (root of 32 zero
  bytes, slot 0) to both \<open>latest_justified\<close> and \<open>latest_finalized\<close>: the two fields
  of the state it returns are equal, and so are their roots, under whatever function
  computes a root and under the engine of the library in particular.
\<close>

theorem checkpoint_shared:
  "create_beam_state = Inr beam_state_value
   \<and> getattr beam_state_value ''latest_justified'' = Some checkpoint_value
   \<and> getattr beam_state_value ''latest_finalized'' = Some checkpoint_value
   \<and> getattr checkpoint_value ''root'' = Some (BytesV 32 (replicate 32 0))
   \<and> getattr checkpoint_value ''slot'' = Some (UintV W64 0)
   \<and> map_option htr (getattr beam_state_value ''latest_justified'')
       = map_option htr (getattr beam_state_value ''latest_finalized'')
   \<and> map_option (hash_tree_root h) (getattr beam_state_value ''latest_justified'')
       = map_option (hash_tree_root h) (getattr beam_state_value ''latest_finalized'')"
  by (simp add: create_beam_state_eval beam_state_value_def checkpoint_value_def)

text \<open>
  C10. The module-level entry point drops what \<open>main\<close> returns: the outcome of the
  process is the same for \<open>True\<close> and for \<open>False\<close>. The script exits normally
  whenever the imported \<open>hash_tree_root\<close> returns a digest, matching or not, and with
  the engine of the library it always does.
\<close>

theorem main_result_discarded:
  "module_entry (Inr True) = module_entry (Inr False)
   \<and> validate_beam_state_hash htr =
         (case htr beam_state_value of
            Inl e \<Rightarrow> UncaughtException e
          | Inr d \<Rightarrow> ExitNormally)
   \<and> validate_beam_state_hash (hash_tree_root h) = ExitNormally"
proof -
  have general: "validate_beam_state_hash f =
         (case f beam_state_value of Inl e \<Rightarrow> UncaughtException e | Inr d \<Rightarrow> ExitNormally)"
    for f
    by (simp add: validate_beam_state_hash_def module_entry_def main_def
        create_beam_state_eval bind_err_def split: sum.split)
  obtain d where "hash_tree_root h beam_state_value = Inr d"
    using hash_tree_root_total [OF valid_beam_state_value, of h] by blast
  then have "validate_beam_state_hash (hash_tree_root h) = ExitNormally"
    by (simp add: general [of "hash_tree_root h"])
  then show ?thesis
    using general [of htr] by (simp add: module_entry_def)
qed

end
